theory Spec2Isabelle
  imports Complex_Main "HOL-Library.Word"
begin

unbundle bit_operations_syntax

section \<open>Machine types\<close>

text \<open>
  The firmware runs on a little-endian 32-bit ARM core.  \<open>uintN_t\<close> is an \<open>N\<close>-bit word;
  an \<open>int16_t\<close> PCM sample is a 16-bit word read in two's complement through \<open>sint\<close>;
  a \<open>float\<close> that is only stored and copied is kept as its 32-bit pattern.
\<close>

type_synonym u8 = "8 word"
type_synonym u16 = "16 word"
type_synonym u32 = "32 word"
type_synonym s16 = "16 word"
type_synonym f32 = "32 word"

definition le16 :: "u16 \<Rightarrow> u8 list" where
  "le16 w = [ucast w, ucast (drop_bit 8 w)]"

definition le32 :: "u32 \<Rightarrow> u8 list" where
  "le32 w = [ucast w, ucast (drop_bit 8 w), ucast (drop_bit 16 w), ucast (drop_bit 24 w)]"

section \<open>audio\_features.h: constants and the packed wire packet\<close>

definition AUDIO_TELEMETRY_VERSION :: u8 where
  "AUDIO_TELEMETRY_VERSION = 1"

definition AUDIO_SAMPLE_RATE :: nat where
  "AUDIO_SAMPLE_RATE = 16000"

definition AUDIO_FRAME_SIZE :: nat where
  "AUDIO_FRAME_SIZE = 512"

definition AUDIO_FRAMES_PER_PACKET :: nat where
  "AUDIO_FRAMES_PER_PACKET = 4"

definition AUDIO_SAMPLES_PER_PACKET :: nat where
  "AUDIO_SAMPLES_PER_PACKET = AUDIO_FRAME_SIZE * AUDIO_FRAMES_PER_PACKET"

definition FFT_SIZE :: nat where
  "FFT_SIZE = 512"

definition FFT_BANDS :: nat where
  "FFT_BANDS = 8"

text \<open>
  \<open>typedef struct __attribute__((packed)) { ... } AudioTelemetryPacket_t\<close> of
  audio\_features.h, field by field in declaration order.  \<open>fft_band\<close> is the array
  \<open>uint32_t fft_band[FFT_BANDS]\<close>.
\<close>

record AudioTelemetryPacket_t =
  version :: u8
  reserved1 :: u8
  seq_number :: u16
  timestamp_ms :: u32
  rms_raw :: u16
  rms_reserved :: u16
  zcr_count :: u16
  zcr_rate :: u16
  spl_db :: u16
  peak_amplitude :: u16
  fft_band :: "u32 list"
  node_id :: u8
  status_flags :: u8
  error_count :: u16
  uptime_sec :: u32
  reserved3 :: u32

text \<open>
  The datagram payload is \<open>memcpy(payload, pkt, sizeof(AudioTelemetryPacket_t))\<close>: the
  memory image of the packed struct, every field at the end of the previous one, least
  significant byte first.  The array contributes its \<open>FFT_BANDS\<close> elements.
\<close>

definition packet_bytes :: "AudioTelemetryPacket_t \<Rightarrow> u8 list" where
  "packet_bytes p =
     [version p] @ [reserved1 p] @ le16 (seq_number p) @
     le32 (timestamp_ms p) @
     le16 (rms_raw p) @ le16 (rms_reserved p) @
     le16 (zcr_count p) @ le16 (zcr_rate p) @
     le16 (spl_db p) @ le16 (peak_amplitude p) @
     concat (map (\<lambda>i. le32 (fft_band p ! i)) [0..<FFT_BANDS]) @
     [node_id p] @ [status_flags p] @ le16 (error_count p) @
     le32 (uptime_sec p) @
     le32 (reserved3 p)"

section \<open>Core/Inc/app\_telemetry.h: the unpacked packet of the Core telemetry module\<close>

text \<open>
  \<open>typedef struct { uint32_t seq_number; ...; uint32_t fft_band[8]; } AudioTelemetryPacket_t\<close>
  of Core/Inc/app\_telemetry.h: nine 4-byte scalars and an array of eight 4-byte words, so
  natural alignment inserts no padding.  The three \<open>float\<close> fields are their bit patterns.
\<close>

record Core_AudioTelemetryPacket_t =
  core_seq_number :: u32
  core_timestamp_ms :: u32
  core_uptime_sec :: u32
  core_rms_raw :: f32
  core_spl_db :: f32
  core_peak_amplitude :: u32
  core_zcr_rate :: f32
  core_status_flags :: u32
  core_error_count :: u32
  core_fft_band :: "u32 list"

text \<open>
  \<open>Telemetry_AddPacket\<close> of Core/Src/app\_telemetry.c appends
  \<open>sizeof(AudioTelemetryPacket_t)\<close> bytes of this struct to the outgoing datagram.
\<close>

definition core_packet_bytes :: "Core_AudioTelemetryPacket_t \<Rightarrow> u8 list" where
  "core_packet_bytes p =
     le32 (core_seq_number p) @ le32 (core_timestamp_ms p) @ le32 (core_uptime_sec p) @
     le32 (core_rms_raw p) @ le32 (core_spl_db p) @ le32 (core_peak_amplitude p) @
     le32 (core_zcr_rate p) @ le32 (core_status_flags p) @ le32 (core_error_count p) @
     concat (map (\<lambda>i. le32 (core_fft_band p ! i)) [0..<8])"

definition core_zero_packet :: Core_AudioTelemetryPacket_t where
  "core_zero_packet =
     \<lparr> core_seq_number = 0, core_timestamp_ms = 0, core_uptime_sec = 0, core_rms_raw = 0,
       core_spl_db = 0, core_peak_amplitude = 0, core_zcr_rate = 0, core_status_flags = 0,
       core_error_count = 0, core_fft_band = replicate 8 0 \<rparr>"

section \<open>audio\_features.c\<close>

text \<open>
  Sample buffers are lists indexed from 0; a call passes the buffer and the count, as the C
  code passes a pointer and \<open>count\<close>.  The pointer arguments are never null in this
  repository's callers, so the null checks have no branch here.  A read at an index beyond
  the list is an out-of-bounds read in C and is left unspecified.
\<close>

definition Q15_MAX :: u16 where
  "Q15_MAX = 32767"

definition sign_change :: "s16 \<Rightarrow> s16 \<Rightarrow> bool" where
  "sign_change a b = ((0 \<le> sint a \<and> sint b < 0) \<or> (sint a < 0 \<and> 0 \<le> sint b))"

text \<open>The loop \<open>for (i = 1; i < count; i++)\<close> of \<open>AudioFeatures_CalculateZCR\<close>.\<close>

definition zero_crossings :: "s16 list \<Rightarrow> u32 \<Rightarrow> u32" where
  "zero_crossings samples count =
     foldl (\<lambda>z i. if sign_change (samples ! (i - 1)) (samples ! i) then z + 1 else z)
       0 [1..<unat count]"

definition AudioFeatures_CalculateZCR :: "s16 list \<Rightarrow> u32 \<Rightarrow> u16" where
  "AudioFeatures_CalculateZCR samples count =
     (if count < 2 then 0
      else
        let zcr_percent = (ucast ((zero_crossings samples count * 100) div count) :: u16)
        in if zcr_percent > 100 then 100 else zcr_percent)"

text \<open>
  One round of the loop of \<open>AudioFeatures_FindPeakAmplitude\<close>: \<open>abs_val\<close> is an
  \<open>int16_t\<close>, so the negation is stored back into 16 bits, and the comparison is made on
  the \<open>uint16_t\<close> reading of those bits.
\<close>

definition peak_step :: "s16 list \<Rightarrow> u16 \<Rightarrow> nat \<Rightarrow> u16" where
  "peak_step samples peak i =
     (let abs_val = samples ! i;
          abs_val = (if sint abs_val < 0 then - abs_val else abs_val)
      in if abs_val > peak then abs_val else peak)"

definition AudioFeatures_FindPeakAmplitude :: "s16 list \<Rightarrow> u32 \<Rightarrow> u16" where
  "AudioFeatures_FindPeakAmplitude samples count =
     (if count = 0 then 0 else foldl (peak_step samples) 0 [0..<unat count])"

text \<open>
  The \<open>double\<close> and \<open>float\<close> computations are written over the reals: the formulas are
  the code's, the IEEE rounding of each operation is not represented.  The conversion to
  \<open>uint16_t\<close> truncates the non-negative value.
\<close>

definition sum_squares :: "s16 list \<Rightarrow> u32 \<Rightarrow> real" where
  "sum_squares samples count =
     foldl (\<lambda>sum i. sum + real_of_int (sint (samples ! i)) * real_of_int (sint (samples ! i)))
       0 [0..<unat count]"

definition AudioFeatures_CalculateRMS :: "s16 list \<Rightarrow> u32 \<Rightarrow> u16" where
  "AudioFeatures_CalculateRMS samples count =
     (if count = 0 then 0
      else
        let rms = sqrt (sum_squares samples count / real (unat count));
            normalized_rms = rms / 32768
        in if normalized_rms > 99999 / 100000 then Q15_MAX
           else word_of_int \<lfloor>normalized_rms * real (unat Q15_MAX)\<rfloor>)"

definition AudioFeatures_CalculateSPL :: "u16 \<Rightarrow> real \<Rightarrow> u16" where
  "AudioFeatures_CalculateSPL rms_q15 ref_pressure =
     (let pressure = real (unat rms_q15) * ref_pressure / real (unat Q15_MAX);
          pressure = (if pressure < 1 / 10000000 then 1 / 10000000 else pressure);
          spl = 20 * log 10 (pressure / ref_pressure);
          spl = spl + 84;
          spl = (if spl < 0 then 0 else spl);
          spl = (if spl > 120 then 120 else spl)
      in word_of_int \<lfloor>spl\<rfloor>)"

text \<open>
  \<open>AudioFeatures_ComputeFFTBands\<close>: the resonator recurrence runs over the samples
  \<open>samples[0] .. samples[FFT_SIZE - 1]\<close>; the function has no count parameter.
\<close>

definition goertzel :: "real \<Rightarrow> s16 list \<Rightarrow> real \<times> real" where
  "goertzel coeff samples =
     foldl (\<lambda>(s_prev, s_curr) n.
              (s_curr, real_of_int (sint (samples ! n)) + coeff * s_curr - s_prev))
       (0, 0) [0..<FFT_SIZE]"

definition bin_width :: nat where
  "bin_width = AUDIO_SAMPLE_RATE div FFT_SIZE"

definition bins_per_band :: nat where
  "bins_per_band = 1000 div bin_width"

definition bin_energy :: "s16 list \<Rightarrow> nat \<Rightarrow> real" where
  "bin_energy samples k =
     (let freq = real k * real bin_width;
          omega = 2 * pi * freq / real AUDIO_SAMPLE_RATE;
          (s_prev, s_curr) = goertzel (2 * cos omega) samples;
          re = s_curr - s_prev * cos omega;
          im = s_prev * sin omega
      in re * re + im * im)"

definition band_magnitude :: "s16 list \<Rightarrow> nat \<Rightarrow> u32" where
  "band_magnitude samples band =
     (let bin_start = band * bins_per_band;
          bin_end = (band + 1) * bins_per_band;
          bin_end = (if bin_end > FFT_SIZE div 2 then FFT_SIZE div 2 else bin_end);
          band_energy = foldl (\<lambda>e k. e + bin_energy samples k) 0 [bin_start..<bin_end];
          magnitude = nat \<lfloor>sqrt band_energy / 1000\<rfloor>
      in if magnitude > 1000000 then 1000000 else of_nat magnitude)"

definition AudioFeatures_ComputeFFTBands :: "s16 list \<Rightarrow> u32 list" where
  "AudioFeatures_ComputeFFTBands samples = map (band_magnitude samples) [0..<FFT_BANDS]"

section \<open>ThreadX queues\<close>

text \<open>
  Modelled from the spec: the ThreadX queue primitives are not part of the sources.
  A queue is a bounded FIFO; \<open>tx_queue_send\<close> with \<open>TX_NO_WAIT\<close> fails at once when
  the queue is full and changes nothing; \<open>tx_queue_receive\<close> with a timeout yields a
  message, \<open>TX_QUEUE_EMPTY\<close> on timeout, or another error status.  What a receive
  returns is an input of each loop round.
\<close>

datatype 'a rx = RX_SUCCESS 'a | RX_QUEUE_EMPTY | RX_ERROR

datatype tx_status = TX_SUCCESS | TX_QUEUE_FULL

definition tx_queue_send :: "nat \<Rightarrow> 'a list \<Rightarrow> 'a \<Rightarrow> tx_status \<times> 'a list" where
  "tx_queue_send depth q msg =
     (if length q < depth then (TX_SUCCESS, q @ [msg]) else (TX_QUEUE_FULL, q))"

text \<open>\<open>tx_queue_receive\<close> on a queue held as a list: the oldest message leaves the queue.\<close>

definition tx_queue_receive :: "'a list \<Rightarrow> 'a rx \<times> 'a list" where
  "tx_queue_receive q = (case q of [] \<Rightarrow> (RX_QUEUE_EMPTY, []) | msg # rest \<Rightarrow> (RX_SUCCESS msg, rest))"

section \<open>audio\_acquisition.h and feature\_extraction.h\<close>

record AudioFrame_t =
  samples :: "s16 list"
  frame_timestamp_ms :: u32
  frame_number :: u32
  error_flags :: u8

record FeatureBuffer_t =
  accumulated_samples :: "s16 list"
  sample_count :: u32
  start_timestamp_ms :: u32
  frame_count :: u32

section \<open>feature\_extraction.c\<close>

definition FEATURE_EXTRACT_QUEUE_DEPTH :: nat where
  "FEATURE_EXTRACT_QUEUE_DEPTH = 2"

text \<open>
  \<open>feature_ctx\<close> together with the file's statics \<open>node_id\<close>, \<open>boot_time_ms\<close> and
  \<open>last_error_flags\<close>.  The output queue is held by its pending messages.
\<close>

record FeatureExtraction_Context_t =
  is_running :: bool
  packet_count :: u32
  fx_error_count :: u32
  fx_seq_number :: u32
  feature_buffer :: FeatureBuffer_t
  output_queue :: "AudioTelemetryPacket_t list"
  fx_node_id :: u32
  boot_time_ms :: u32
  last_error_flags :: u32

text \<open>\<open>memset(&feature_ctx.feature_buffer, 0, sizeof(feature_ctx.feature_buffer))\<close>.\<close>

definition FeatureBuffer_zero :: FeatureBuffer_t where
  "FeatureBuffer_zero =
     \<lparr> accumulated_samples = replicate AUDIO_SAMPLES_PER_PACKET 0,
       sample_count = 0, start_timestamp_ms = 0, frame_count = 0 \<rparr>"

text \<open>The state after \<open>FeatureExtraction_Init\<close> succeeds.\<close>

definition FeatureExtraction_Init :: FeatureExtraction_Context_t where
  "FeatureExtraction_Init =
     \<lparr> is_running = False, packet_count = 0, fx_error_count = 0, fx_seq_number = 0,
       feature_buffer = FeatureBuffer_zero, output_queue = [],
       fx_node_id = 1, boot_time_ms = 0, last_error_flags = 0 \<rparr>"

text \<open>\<open>FeatureExtraction_Start\<close>; the argument is what \<open>tx_time_get()\<close> returns.\<close>

definition FeatureExtraction_Start :: "u32 \<Rightarrow> FeatureExtraction_Context_t \<Rightarrow> FeatureExtraction_Context_t" where
  "FeatureExtraction_Start now ctx = ctx\<lparr> is_running := True, boot_time_ms := now \<rparr>"

text \<open>
  \<open>memcpy(&accumulated_samples[sample_offset], frame.samples, sizeof(frame.samples))\<close>:
  the \<open>AUDIO_FRAME_SIZE\<close> elements of the frame's array replace those of the accumulator
  from \<open>sample_offset\<close> on.
\<close>

definition memcpy_frame :: "s16 list \<Rightarrow> nat \<Rightarrow> s16 list \<Rightarrow> s16 list" where
  "memcpy_frame dst sample_offset src =
     take sample_offset dst @ map (\<lambda>i. src ! i) [0..<AUDIO_FRAME_SIZE] @
     drop (sample_offset + AUDIO_FRAME_SIZE) dst"

text \<open>
  \<open>FeatureExtraction_ProcessBuffer\<close>.  The first argument is what \<open>tx_time_get()\<close>
  returns; the result is \<open>None\<close> where the C function returns \<open>-1\<close> and the packet
  where it returns 0.
\<close>

definition FeatureExtraction_ProcessBuffer ::
    "u32 \<Rightarrow> FeatureBuffer_t \<Rightarrow> FeatureExtraction_Context_t \<Rightarrow>
     AudioTelemetryPacket_t option \<times> FeatureExtraction_Context_t" where
  "FeatureExtraction_ProcessBuffer now buf ctx =
     (if sample_count buf = 0 then (None, ctx)
      else
        let seq = fx_seq_number ctx;
            ctx' = ctx\<lparr> fx_seq_number := (if seq + 1 > 65535 then 0 else seq + 1) \<rparr>;
            ticks_elapsed = now - boot_time_ms ctx;
            rms = AudioFeatures_CalculateRMS (accumulated_samples buf) (sample_count buf);
            pkt = \<lparr> version = AUDIO_TELEMETRY_VERSION,
                    reserved1 = 0,
                    seq_number = ucast seq,
                    timestamp_ms = start_timestamp_ms buf,
                    rms_raw = rms,
                    rms_reserved = 0,
                    zcr_count = ucast (sample_count buf div 2),
                    zcr_rate = AudioFeatures_CalculateZCR (accumulated_samples buf) (sample_count buf),
                    spl_db = AudioFeatures_CalculateSPL rms (20 / 1000000),
                    peak_amplitude =
                      AudioFeatures_FindPeakAmplitude (accumulated_samples buf) (sample_count buf),
                    fft_band = AudioFeatures_ComputeFFTBands (accumulated_samples buf),
                    node_id = ucast (fx_node_id ctx),
                    status_flags = ucast (last_error_flags ctx AND 0xFF),
                    error_count = ucast (fx_error_count ctx AND 0xFFFF),
                    uptime_sec = ticks_elapsed div 1000,
                    reserved3 = 0 \<rparr>
        in (Some pkt, ctx'))"

text \<open>
  The body of the loop of \<open>FeatureExtraction_ThreadEntry\<close> after a frame was received,
  in its two parts: copying the frame into the accumulator, and emitting a packet once
  enough samples are there.
\<close>

definition accumulate_frame :: "AudioFrame_t \<Rightarrow> FeatureExtraction_Context_t \<Rightarrow> FeatureExtraction_Context_t" where
  "accumulate_frame frame ctx =
     (let buf = feature_buffer ctx;
          sample_offset = sample_count buf
      in if sample_offset + of_nat AUDIO_FRAME_SIZE \<le> of_nat AUDIO_SAMPLES_PER_PACKET then
           let buf = buf\<lparr> accumulated_samples :=
                            memcpy_frame (accumulated_samples buf) (unat sample_offset) (samples frame) \<rparr>;
               buf = buf\<lparr> sample_count := sample_count buf + of_nat AUDIO_FRAME_SIZE \<rparr>;
               buf = (if sample_count buf = 0
                      then buf\<lparr> start_timestamp_ms := frame_timestamp_ms frame \<rparr> else buf)
           in ctx\<lparr> feature_buffer := buf,
                    last_error_flags :=
                      (if error_flags frame \<noteq> 0 then last_error_flags ctx OR ucast (error_flags frame)
                       else last_error_flags ctx) \<rparr>
         else ctx)"

definition emit_packet :: "u32 \<Rightarrow> FeatureExtraction_Context_t \<Rightarrow> FeatureExtraction_Context_t" where
  "emit_packet now ctx =
     (if sample_count (feature_buffer ctx) \<ge> of_nat AUDIO_SAMPLES_PER_PACKET then
        let ctx =
          (case FeatureExtraction_ProcessBuffer now (feature_buffer ctx) ctx of
             (Some telemetry_pkt, ctx) \<Rightarrow>
               (case tx_queue_send FEATURE_EXTRACT_QUEUE_DEPTH (output_queue ctx) telemetry_pkt of
                  (TX_SUCCESS, q) \<Rightarrow> ctx\<lparr> output_queue := q, packet_count := packet_count ctx + 1 \<rparr>
                | (TX_QUEUE_FULL, q) \<Rightarrow> ctx\<lparr> output_queue := q, fx_error_count := fx_error_count ctx + 1 \<rparr>)
           | (None, ctx) \<Rightarrow> ctx\<lparr> fx_error_count := fx_error_count ctx + 1 \<rparr>)
        in ctx\<lparr> feature_buffer := FeatureBuffer_zero, last_error_flags := 0 \<rparr>
      else ctx)"

text \<open>The packet that a round of the loop builds, if it builds one.\<close>

definition built_packet :: "u32 \<Rightarrow> FeatureExtraction_Context_t \<Rightarrow> AudioTelemetryPacket_t option" where
  "built_packet now ctx =
     (if sample_count (feature_buffer ctx) \<ge> of_nat AUDIO_SAMPLES_PER_PACKET
      then fst (FeatureExtraction_ProcessBuffer now (feature_buffer ctx) ctx) else None)"

text \<open>
  One round of \<open>while (1)\<close> in \<open>FeatureExtraction_ThreadEntry\<close>, given what
  \<open>tx_queue_receive\<close> returned and the tick count.  A thread that is not running is
  suspended and changes nothing.
\<close>

definition FeatureExtraction_ThreadEntry ::
    "AudioFrame_t rx \<Rightarrow> u32 \<Rightarrow> FeatureExtraction_Context_t \<Rightarrow> FeatureExtraction_Context_t" where
  "FeatureExtraction_ThreadEntry received now ctx =
     (if \<not> is_running ctx then ctx
      else case received of
        RX_QUEUE_EMPTY \<Rightarrow> ctx
      | RX_ERROR \<Rightarrow> ctx\<lparr> fx_error_count := fx_error_count ctx + 1 \<rparr>
      | RX_SUCCESS frame \<Rightarrow> emit_packet now (accumulate_frame frame ctx))"

text \<open>The thread run over a sequence of receive results and tick counts.\<close>

definition FeatureExtraction_run ::
    "(AudioFrame_t rx \<times> u32) list \<Rightarrow> FeatureExtraction_Context_t \<Rightarrow> FeatureExtraction_Context_t" where
  "FeatureExtraction_run inputs ctx =
     foldl (\<lambda>c (received, now). FeatureExtraction_ThreadEntry received now c) ctx inputs"

text \<open>
  The packet that one round of the loop builds, if any, and the packets built over a
  sequence of rounds, in order, whether the output queue took them or not.
\<close>

definition round_packet ::
    "AudioFrame_t rx \<Rightarrow> u32 \<Rightarrow> FeatureExtraction_Context_t \<Rightarrow> AudioTelemetryPacket_t option" where
  "round_packet received now ctx =
     (if \<not> is_running ctx then None
      else case received of
        RX_SUCCESS frame \<Rightarrow> built_packet now (accumulate_frame frame ctx)
      | RX_QUEUE_EMPTY \<Rightarrow> None
      | RX_ERROR \<Rightarrow> None)"

fun built_trace ::
    "(AudioFrame_t rx \<times> u32) list \<Rightarrow> FeatureExtraction_Context_t \<Rightarrow> AudioTelemetryPacket_t list" where
  "built_trace [] ctx = []"
| "built_trace ((received, now) # rest) ctx =
     (case round_packet received now ctx of None \<Rightarrow> [] | Some pkt \<Rightarrow> [pkt]) @
     built_trace rest (FeatureExtraction_ThreadEntry received now ctx)"

text \<open>The extractor's state after the sender has taken one packet from the output queue.\<close>

definition sender_takes :: "FeatureExtraction_Context_t \<Rightarrow> FeatureExtraction_Context_t" where
  "sender_takes ctx = ctx\<lparr> output_queue := snd (tx_queue_receive (output_queue ctx)) \<rparr>"

section \<open>NetX Duo calls\<close>

text \<open>
  Modelled from the spec: the NetX Duo datagram primitives are not part of the sources.
  The status that \<open>nx_packet_allocate\<close>, \<open>nx_packet_data_append\<close> and
  \<open>nx_udp_socket_send\<close> return is an input of each loop round; a datagram that was sent
  is recorded with its destination and payload.
\<close>

datatype nx_status = NX_SUCCESS | NX_PTR_ERROR | NX_NOT_ENABLED | NX_FAILED nat

record datagram =
  dst_ip :: u32
  dst_port :: nat
  payload :: "u8 list"

section \<open>NetXDuo/App/app\_telemetry.c: the sender with a one-packet cache\<close>

definition TELEMETRY_UDP_PORT_RX :: nat where
  "TELEMETRY_UDP_PORT_RX = 5000"

definition TELEMETRY_DEFAULT_IP_ADDR :: u32 where
  "TELEMETRY_DEFAULT_IP_ADDR = 0xFFFFFFFF"

text \<open>
  \<open>telemetry_ctx\<close> with the statics \<open>telemetry_last_pkt\<close> and
  \<open>telemetry_last_pkt_valid\<close>; \<open>app_ip_instance\<close> says that the pointer is not null,
  \<open>app_sent\<close> lists the datagrams handed to the socket so far.
\<close>

record App_Telemetry_Context_t =
  app_ip_instance :: bool
  app_is_ready :: bool
  app_is_running :: bool
  app_receiver_ip :: u32
  app_receiver_port :: nat
  app_use_broadcast :: u8
  app_tx_count :: u32
  app_error_count :: u32
  telemetry_last_pkt :: AudioTelemetryPacket_t
  telemetry_last_pkt_valid :: u8
  app_sent :: "datagram list"

text \<open>
  \<open>Telemetry_TransmitPacket\<close>, given the statuses of \<open>nx_packet_allocate\<close> and of
  \<open>nx_udp_socket_send\<close>.
\<close>

definition App_Telemetry_TransmitPacket ::
    "nx_status \<Rightarrow> nx_status \<Rightarrow> AudioTelemetryPacket_t \<Rightarrow> App_Telemetry_Context_t \<Rightarrow>
     nx_status \<times> App_Telemetry_Context_t" where
  "App_Telemetry_TransmitPacket allocated sent pkt ctx =
     (if \<not> app_ip_instance ctx then (NX_PTR_ERROR, ctx)
      else if allocated \<noteq> NX_SUCCESS then
        (allocated, ctx\<lparr> app_error_count := app_error_count ctx + 1 \<rparr>)
      else
        let packet_ptr =
              \<lparr> dst_ip = (if app_use_broadcast ctx \<noteq> 0 then 0xFFFFFFFF else app_receiver_ip ctx),
                dst_port = app_receiver_port ctx,
                payload = packet_bytes pkt \<rparr>
        in if sent \<noteq> NX_SUCCESS then (sent, ctx)
           else (NX_SUCCESS, ctx\<lparr> app_sent := app_sent ctx @ [packet_ptr] \<rparr>))"

text \<open>One round of \<open>while (1)\<close> in \<open>Telemetry_ThreadEntry\<close> of this file.\<close>

definition App_Telemetry_ThreadEntry ::
    "AudioTelemetryPacket_t rx \<Rightarrow> nx_status \<Rightarrow> nx_status \<Rightarrow> App_Telemetry_Context_t \<Rightarrow>
     App_Telemetry_Context_t" where
  "App_Telemetry_ThreadEntry received allocated sent ctx =
     (if \<not> app_is_running ctx then ctx
      else if \<not> app_is_ready ctx then ctx
      else case received of
        RX_QUEUE_EMPTY \<Rightarrow> ctx
      | RX_ERROR \<Rightarrow> ctx\<lparr> app_error_count := app_error_count ctx + 1 \<rparr>
      | RX_SUCCESS pkt \<Rightarrow>
          (case App_Telemetry_TransmitPacket allocated sent pkt ctx of
             (status, ctx) \<Rightarrow>
               let ctx = ctx\<lparr> telemetry_last_pkt := pkt, telemetry_last_pkt_valid := 1 \<rparr>
               in if status = NX_SUCCESS then ctx\<lparr> app_tx_count := app_tx_count ctx + 1 \<rparr>
                  else ctx\<lparr> app_error_count := app_error_count ctx + 1 \<rparr>))"

text \<open>\<open>Telemetry_GetLastPacket\<close> of this file, for a non-null \<open>out\<close>.\<close>

definition App_Telemetry_GetLastPacket :: "App_Telemetry_Context_t \<Rightarrow> AudioTelemetryPacket_t option" where
  "App_Telemetry_GetLastPacket ctx =
     (if telemetry_last_pkt_valid ctx = 0 then None else Some (telemetry_last_pkt ctx))"

section \<open>The ring buffer of the two other telemetry modules\<close>

definition TELEMETRY_MAX_PACKETS :: nat where
  "TELEMETRY_MAX_PACKETS = 10"

text \<open>
  \<open>TelemetryBuffer_t\<close>, declared alike in Core/Src/app\_telemetry.c and in
  STM32CubeIDE/Application/User/Core/app\_telemetry.c, over the packet type of each.
  The mutex is taken and released around every access; the accesses are atomic steps here.
\<close>

record 'p TelemetryBuffer_t =
  packets :: "'p list"
  write_index :: u32
  read_index :: u32
  buf_packet_count :: u32

definition Telemetry_BufferInit :: "'p TelemetryBuffer_t \<Rightarrow> 'p TelemetryBuffer_t" where
  "Telemetry_BufferInit b = b\<lparr> write_index := 0, read_index := 0, buf_packet_count := 0 \<rparr>"

text \<open>The retained packets, oldest first: \<open>packet_count\<close> slots from \<open>read_index\<close> on.\<close>

definition retained :: "'p TelemetryBuffer_t \<Rightarrow> 'p list" where
  "retained b =
     map (\<lambda>i. packets b ! ((unat (read_index b) + i) mod TELEMETRY_MAX_PACKETS))
       [0..<unat (buf_packet_count b)]"

text \<open>
  The shape every reachable buffer has: an array of \<open>TELEMETRY_MAX_PACKETS\<close> slots, both
  cursors inside it, the write cursor \<open>packet_count\<close> slots ahead of the read cursor.
\<close>

definition buffer_ok :: "'p TelemetryBuffer_t \<Rightarrow> bool" where
  "buffer_ok b =
     (length (packets b) = TELEMETRY_MAX_PACKETS \<and>
      unat (read_index b) < TELEMETRY_MAX_PACKETS \<and>
      unat (buf_packet_count b) \<le> TELEMETRY_MAX_PACKETS \<and>
      unat (write_index b) =
        (unat (read_index b) + unat (buf_packet_count b)) mod TELEMETRY_MAX_PACKETS)"

section \<open>STM32CubeIDE/Application/User/Core/app\_telemetry.c: the sender with a ring cache\<close>

text \<open>\<open>Telemetry_BufferPut\<close> of this file: overwrites the oldest packet when full.\<close>

definition User_Telemetry_BufferPut :: "'p \<Rightarrow> 'p TelemetryBuffer_t \<Rightarrow> u8 \<times> 'p TelemetryBuffer_t" where
  "User_Telemetry_BufferPut packet b =
     (let b = b\<lparr> packets := (packets b)[unat (write_index b) := packet] \<rparr>;
          b = b\<lparr> write_index := (write_index b + 1) mod of_nat TELEMETRY_MAX_PACKETS \<rparr>;
          b = (if buf_packet_count b < of_nat TELEMETRY_MAX_PACKETS
               then b\<lparr> buf_packet_count := buf_packet_count b + 1 \<rparr>
               else b\<lparr> read_index := (read_index b + 1) mod of_nat TELEMETRY_MAX_PACKETS \<rparr>)
      in (1, b))"

text \<open>\<open>Telemetry_BufferGet\<close> of this file (unused there).\<close>

definition User_Telemetry_BufferGet :: "'p TelemetryBuffer_t \<Rightarrow> 'p option \<times> 'p TelemetryBuffer_t" where
  "User_Telemetry_BufferGet b =
     (if buf_packet_count b > 0 then
        (Some (packets b ! unat (read_index b)),
         b\<lparr> read_index := (read_index b + 1) mod of_nat TELEMETRY_MAX_PACKETS,
            buf_packet_count := buf_packet_count b - 1 \<rparr>)
      else (None, b))"

record User_Telemetry =
  telemetry_buffer :: "AudioTelemetryPacket_t TelemetryBuffer_t"
  sequence_number :: u32
  tx_count :: u32
  user_error_count :: u32
  telemetry_initialized :: bool
  telemetry_started :: bool
  user_sent :: "datagram list"

text \<open>
  \<open>Telemetry_GetLastPacket\<close> of this file, for a non-null \<open>packet\<close>: the result and
  the module state it leaves.
\<close>

definition User_Telemetry_GetLastPacket ::
    "User_Telemetry \<Rightarrow> AudioTelemetryPacket_t option \<times> User_Telemetry" where
  "User_Telemetry_GetLastPacket st =
     (if \<not> telemetry_initialized st then (None, st)
      else
        let b = telemetry_buffer st in
        if buf_packet_count b > 0 then
          let last_index =
                (write_index b + of_nat TELEMETRY_MAX_PACKETS - 1) mod of_nat TELEMETRY_MAX_PACKETS
          in (Some (packets b ! unat last_index), st)
        else (None, st))"

text \<open>
  \<open>Telemetry_SendUDP\<close>, given the statuses of \<open>nx_packet_allocate\<close>,
  \<open>nx_packet_data_append\<close> and \<open>nx_udp_socket_send\<close>.
\<close>

definition User_Telemetry_SendUDP ::
    "nx_status \<Rightarrow> nx_status \<Rightarrow> nx_status \<Rightarrow> AudioTelemetryPacket_t \<Rightarrow> User_Telemetry \<Rightarrow>
     nx_status \<times> User_Telemetry" where
  "User_Telemetry_SendUDP allocated appended sent packet st =
     (if \<not> telemetry_started st then (NX_NOT_ENABLED, st)
      else if allocated \<noteq> NX_SUCCESS then (allocated, st)
      else if appended \<noteq> NX_SUCCESS then (appended, st)
      else if sent \<noteq> NX_SUCCESS then (sent, st)
      else (NX_SUCCESS,
            st\<lparr> user_sent := user_sent st @
                  [\<lparr> dst_ip = 0xFFFFFFFF, dst_port = 5001, payload = packet_bytes packet \<rparr>] \<rparr>))"

text \<open>One round of \<open>while (1)\<close> in \<open>Telemetry_ThreadEntry\<close> of this file.\<close>

definition User_Telemetry_ThreadEntry ::
    "AudioTelemetryPacket_t rx \<Rightarrow> nx_status \<Rightarrow> nx_status \<Rightarrow> nx_status \<Rightarrow> User_Telemetry \<Rightarrow>
     User_Telemetry" where
  "User_Telemetry_ThreadEntry received allocated appended sent st =
     (case received of
        RX_SUCCESS packet \<Rightarrow>
          let packet = packet\<lparr> seq_number := ucast (sequence_number st) \<rparr>;
              st = st\<lparr> sequence_number := sequence_number st + 1 \<rparr>
          in (case User_Telemetry_SendUDP allocated appended sent packet st of
                (status, st) \<Rightarrow>
                  let st = (if status = NX_SUCCESS then st\<lparr> tx_count := tx_count st + 1 \<rparr>
                            else st\<lparr> user_error_count := user_error_count st + 1 \<rparr>)
                  in st\<lparr> telemetry_buffer := snd (User_Telemetry_BufferPut packet (telemetry_buffer st)) \<rparr>)
      | RX_ERROR \<Rightarrow> st\<lparr> user_error_count := user_error_count st + 1 \<rparr>
      | RX_QUEUE_EMPTY \<Rightarrow> st)"

text \<open>
  The packet that one round of this thread stamps with a sequence number, if it received
  one, the packets stamped over a sequence of rounds, and the thread run over such a
  sequence; a round is what \<open>tx_queue_receive\<close> returned with the three NetX statuses.
\<close>

definition User_stamped :: "AudioTelemetryPacket_t rx \<Rightarrow> User_Telemetry \<Rightarrow> AudioTelemetryPacket_t option" where
  "User_stamped received st =
     (case received of
        RX_SUCCESS packet \<Rightarrow> Some (packet\<lparr> seq_number := ucast (sequence_number st) \<rparr>)
      | RX_QUEUE_EMPTY \<Rightarrow> None
      | RX_ERROR \<Rightarrow> None)"

fun User_stamped_trace ::
    "(AudioTelemetryPacket_t rx \<times> nx_status \<times> nx_status \<times> nx_status) list \<Rightarrow> User_Telemetry \<Rightarrow>
     AudioTelemetryPacket_t list" where
  "User_stamped_trace [] st = []"
| "User_stamped_trace ((received, allocated, appended, sent) # rest) st =
     (case User_stamped received st of None \<Rightarrow> [] | Some pkt \<Rightarrow> [pkt]) @
     User_stamped_trace rest (User_Telemetry_ThreadEntry received allocated appended sent st)"

definition User_Telemetry_run ::
    "(AudioTelemetryPacket_t rx \<times> nx_status \<times> nx_status \<times> nx_status) list \<Rightarrow> User_Telemetry \<Rightarrow>
     User_Telemetry" where
  "User_Telemetry_run rounds st =
     foldl (\<lambda>s (received, allocated, appended, sent).
              User_Telemetry_ThreadEntry received allocated appended sent s) st rounds"

section \<open>Core/Src/app\_telemetry.c: the Core telemetry module\<close>

text \<open>\<open>Telemetry_BufferPut\<close> of this file: refuses the packet when the buffer is full.\<close>

definition Core_Telemetry_BufferPut :: "'p \<Rightarrow> 'p TelemetryBuffer_t \<Rightarrow> bool \<times> 'p TelemetryBuffer_t" where
  "Core_Telemetry_BufferPut packet b =
     (if buf_packet_count b < of_nat TELEMETRY_MAX_PACKETS then
        (True,
         b\<lparr> packets := (packets b)[unat (write_index b) := packet],
            write_index := (write_index b + 1) mod of_nat TELEMETRY_MAX_PACKETS,
            buf_packet_count := buf_packet_count b + 1 \<rparr>)
      else (False, b))"

definition Core_Telemetry_BufferGet :: "'p TelemetryBuffer_t \<Rightarrow> 'p option \<times> 'p TelemetryBuffer_t" where
  "Core_Telemetry_BufferGet b =
     (if buf_packet_count b > 0 then
        (Some (packets b ! unat (read_index b)),
         b\<lparr> read_index := (read_index b + 1) mod of_nat TELEMETRY_MAX_PACKETS,
            buf_packet_count := buf_packet_count b - 1 \<rparr>)
      else (None, b))"

record Core_Telemetry =
  core_telemetry_buffer :: "Core_AudioTelemetryPacket_t TelemetryBuffer_t"
  core_sequence_number :: u32
  core_telemetry_initialized :: bool
  core_sent :: "datagram list"

text \<open>\<open>Telemetry_GetLastPacket\<close> of this file, for a non-null \<open>packet\<close>.\<close>

definition Core_Telemetry_GetLastPacket ::
    "Core_Telemetry \<Rightarrow> Core_AudioTelemetryPacket_t option \<times> Core_Telemetry" where
  "Core_Telemetry_GetLastPacket st =
     (if \<not> core_telemetry_initialized st then (None, st)
      else case Core_Telemetry_BufferGet (core_telemetry_buffer st) of
             (r, b) \<Rightarrow> (r, st\<lparr> core_telemetry_buffer := b \<rparr>))"

text \<open>
  \<open>Telemetry_AddPacket\<close> of this file, for a non-null \<open>packet\<close>, given the statuses of
  \<open>nx_packet_allocate\<close> and \<open>nx_packet_data_append\<close>; the status of the send is ignored
  by the code.
\<close>

definition Core_Telemetry_AddPacket ::
    "nx_status \<Rightarrow> nx_status \<Rightarrow> Core_AudioTelemetryPacket_t \<Rightarrow> Core_Telemetry \<Rightarrow>
     bool \<times> Core_AudioTelemetryPacket_t option \<times> Core_Telemetry" where
  "Core_Telemetry_AddPacket allocated appended packet st =
     (if \<not> core_telemetry_initialized st then (False, None, st)
      else
        let pkt = packet\<lparr> core_seq_number := core_sequence_number st \<rparr>;
            st = st\<lparr> core_sequence_number := core_sequence_number st + 1 \<rparr>;
            st = (if allocated = NX_SUCCESS \<and> appended = NX_SUCCESS
                  then st\<lparr> core_sent := core_sent st @
                         [\<lparr> dst_ip = 0xFFFFFFFF, dst_port = 12345, payload = core_packet_bytes pkt \<rparr>] \<rparr>
                  else st)
        in case Core_Telemetry_BufferPut pkt (core_telemetry_buffer st) of
             (result, b) \<Rightarrow> (result, Some pkt, st\<lparr> core_telemetry_buffer := b \<rparr>))"

text \<open>The packets stamped by a sequence of calls of \<open>Telemetry_AddPacket\<close>, in order.\<close>

fun Core_stamped_trace ::
    "(nx_status \<times> nx_status \<times> Core_AudioTelemetryPacket_t) list \<Rightarrow> Core_Telemetry \<Rightarrow>
     Core_AudioTelemetryPacket_t list" where
  "Core_stamped_trace [] st = []"
| "Core_stamped_trace ((allocated, appended, packet) # rest) st =
     (case fst (snd (Core_Telemetry_AddPacket allocated appended packet st)) of
        None \<Rightarrow> [] | Some pkt \<Rightarrow> [pkt]) @
     Core_stamped_trace rest (snd (snd (Core_Telemetry_AddPacket allocated appended packet st)))"

section \<open>Reachable states and example inputs\<close>

text \<open>
  What holds of the extractor's state at the head of every round of its loop: the sample
  count is one of 0, 512, 1024, 1536, the accumulator has its full capacity, the start
  timestamp is still the 0 of the last \<open>memset\<close>, the sequence counter is a 16-bit value
  and the output queue holds no more than its depth.
\<close>

definition fx_inv :: "FeatureExtraction_Context_t \<Rightarrow> bool" where
  "fx_inv ctx =
     (sample_count (feature_buffer ctx) \<in> {0, 512, 1024, 1536} \<and>
      length (accumulated_samples (feature_buffer ctx)) = AUDIO_SAMPLES_PER_PACKET \<and>
      start_timestamp_ms (feature_buffer ctx) = 0 \<and>
      fx_seq_number ctx \<le> 65535 \<and>
      length (output_queue ctx) \<le> FEATURE_EXTRACT_QUEUE_DEPTH)"

text \<open>A packet with every byte zero, a frame of 512 equal samples, two module states.\<close>

definition zero_packet :: AudioTelemetryPacket_t where
  "zero_packet =
     \<lparr> version = 0, reserved1 = 0, seq_number = 0, timestamp_ms = 0, rms_raw = 0,
       rms_reserved = 0, zcr_count = 0, zcr_rate = 0, spl_db = 0, peak_amplitude = 0,
       fft_band = replicate FFT_BANDS 0, node_id = 0, status_flags = 0, error_count = 0,
       uptime_sec = 0, reserved3 = 0 \<rparr>"

definition const_frame :: "s16 \<Rightarrow> u32 \<Rightarrow> AudioFrame_t" where
  "const_frame v t =
     \<lparr> samples = replicate AUDIO_FRAME_SIZE v, frame_timestamp_ms = t, frame_number = 0,
       error_flags = 0 \<rparr>"

text \<open>The extractor with three frames accumulated and two packets waiting in its output queue.\<close>

definition full_queue_ctx :: FeatureExtraction_Context_t where
  "full_queue_ctx =
     (FeatureExtraction_Start 0 FeatureExtraction_Init)
       \<lparr> feature_buffer := FeatureBuffer_zero\<lparr> sample_count := 1536 \<rparr>,
         output_queue := [zero_packet, zero_packet] \<rparr>"

text \<open>The state after \<open>Telemetry_Init\<close> and \<open>Telemetry_Start\<close> of NetXDuo/App succeed.\<close>

definition App_Telemetry_started :: App_Telemetry_Context_t where
  "App_Telemetry_started =
     \<lparr> app_ip_instance = True, app_is_ready = True, app_is_running = True,
       app_receiver_ip = TELEMETRY_DEFAULT_IP_ADDR, app_receiver_port = TELEMETRY_UDP_PORT_RX,
       app_use_broadcast = 1, app_tx_count = 0, app_error_count = 0,
       telemetry_last_pkt = zero_packet, telemetry_last_pkt_valid = 0, app_sent = [] \<rparr>"

text \<open>The statics of Core/Src/app\_telemetry.c after \<open>Telemetry_Init\<close>.\<close>

definition Core_Telemetry_Init :: Core_Telemetry where
  "Core_Telemetry_Init =
     \<lparr> core_telemetry_buffer =
         Telemetry_BufferInit
           \<lparr> packets = replicate TELEMETRY_MAX_PACKETS core_zero_packet,
             write_index = 0, read_index = 0, buf_packet_count = 0 \<rparr>,
       core_sequence_number = 0, core_telemetry_initialized = True, core_sent = [] \<rparr>"

text \<open>
  The statics of STM32CubeIDE/Application/User/Core/app\_telemetry.c after
  \<open>Telemetry_Init\<close> and \<open>Telemetry_Start\<close> succeed.
\<close>

definition User_Telemetry_Init :: User_Telemetry where
  "User_Telemetry_Init =
     \<lparr> telemetry_buffer =
         Telemetry_BufferInit
           \<lparr> packets = replicate TELEMETRY_MAX_PACKETS zero_packet,
             write_index = 0, read_index = 0, buf_packet_count = 0 \<rparr>,
       sequence_number = 0, tx_count = 0, user_error_count = 0,
       telemetry_initialized = True, telemetry_started = True, user_sent = [] \<rparr>"

text \<open>Two packets added to the Core module, the first with timestamp 1, the second with 2.\<close>

definition core_two_packets :: Core_Telemetry where
  "core_two_packets =
     snd (snd (Core_Telemetry_AddPacket NX_SUCCESS NX_SUCCESS (core_zero_packet\<lparr> core_timestamp_ms := 2 \<rparr>)
       (snd (snd (Core_Telemetry_AddPacket NX_SUCCESS NX_SUCCESS (core_zero_packet\<lparr> core_timestamp_ms := 1 \<rparr>)
          Core_Telemetry_Init)))))"

text \<open>The extractor after three frames of silence.\<close>

definition three_frames_ctx :: FeatureExtraction_Context_t where
  "three_frames_ctx =
     FeatureExtraction_run
       [(RX_SUCCESS (const_frame 0 0), 0), (RX_SUCCESS (const_frame 0 0), 0),
        (RX_SUCCESS (const_frame 0 0), 0)]
       (FeatureExtraction_Start 0 FeatureExtraction_Init)"

text \<open>Rounds in which a frame of silence is received at tick 0.\<close>

definition silent_rounds :: "nat \<Rightarrow> (AudioFrame_t rx \<times> u32) list" where
  "silent_rounds n = replicate n (RX_SUCCESS (const_frame 0 0), 0)"

text \<open>
  Three rounds of the sender thread of the STM32CubeIDE app\_telemetry.c, each receiving a
  packet; \<open>nx_udp_socket_send\<close> fails in the second.
\<close>

definition send_fails_once ::
    "(AudioTelemetryPacket_t rx \<times> nx_status \<times> nx_status \<times> nx_status) list" where
  "send_fails_once =
     [(RX_SUCCESS zero_packet, NX_SUCCESS, NX_SUCCESS, NX_SUCCESS),
      (RX_SUCCESS zero_packet, NX_SUCCESS, NX_SUCCESS, NX_FAILED 1),
      (RX_SUCCESS zero_packet, NX_SUCCESS, NX_SUCCESS, NX_SUCCESS)]"

text \<open>Two calls of \<open>Telemetry_AddPacket\<close> of Core/Src/app\_telemetry.c.\<close>

definition wrap_calls :: "(nx_status \<times> nx_status \<times> Core_AudioTelemetryPacket_t) list" where
  "wrap_calls =
     [(NX_SUCCESS, NX_SUCCESS, core_zero_packet), (NX_SUCCESS, NX_SUCCESS, core_zero_packet)]"

text \<open>
  The sender of the STM32CubeIDE app\_telemetry.c after it received and sent two packets,
  the first with timestamp 1, the second with timestamp 2.
\<close>

definition user_two_packets :: User_Telemetry where
  "user_two_packets =
     User_Telemetry_run
       [(RX_SUCCESS (zero_packet\<lparr> timestamp_ms := 1 \<rparr>), NX_SUCCESS, NX_SUCCESS, NX_SUCCESS),
        (RX_SUCCESS (zero_packet\<lparr> timestamp_ms := 2 \<rparr>), NX_SUCCESS, NX_SUCCESS, NX_SUCCESS)]
       User_Telemetry_Init"

text \<open>A full ring of the numbers 0 to 9, the oldest at slot 3.\<close>

definition full_ring :: "nat TelemetryBuffer_t" where
  "full_ring =
     \<lparr> packets = [0, 1, 2, 3, 4, 5, 6, 7, 8, 9], write_index = 3, read_index = 3,
       buf_packet_count = 10 \<rparr>"

section \<open>Lemmas on the byte images\<close>

lemma length_le16: "length (le16 w) = 2"
  by (simp add: le16_def)

lemma length_le32: "length (le32 w) = 4"
  by (simp add: le32_def)

lemma length_concat_le32: "length (concat (map (\<lambda>i. le32 (f i)) [0..<n])) = 4 * n"
  by (induction n) (simp_all add: length_le32)

section \<open>Lemmas on the ring buffer and on the extractor\<close>

lemma unat_succ_mod10: "unat w < 10 \<Longrightarrow> unat ((w + 1) mod 10 :: u32) = (unat w + 1) mod 10"
  by (simp add: unat_mod unat_word_ariths)

lemma unat_pred_mod10: "unat w < 10 \<Longrightarrow> unat ((w + 10 - 1) mod 10 :: u32) = (unat w + 9) mod 10"
proof -
  assume a: "unat w < 10"
  have "unat ((w + 10 - 1) mod 10) = (9 + unat w) mod 10"
    using a by (simp add: unat_mod unat_word_ariths)
  also have "9 + unat w = unat w + 9" by arith
  finally show ?thesis .
qed

lemma mod10_distinct:
  assumes "i < j" "j < i + 10"
  shows "(r + i) mod 10 \<noteq> (r + j) mod (10::nat)"
proof
  assume "(r + i) mod 10 = (r + j) mod 10"
  then have "(r + j) mod 10 = (r + i) mod 10" by simp
  moreover have "r + i \<le> r + j" using assms by simp
  ultimately have "10 dvd (r + j) - (r + i)" by (simp only: mod_eq_dvd_iff_nat)
  then have "10 dvd j - i" by simp
  moreover have "0 < j - i" "j - i < 10" using assms by simp_all
  ultimately show False using nat_dvd_not_less by blast
qed

lemma succ_mod10: "((r + c) mod 10 + 1) mod 10 = (r + (c + 1)) mod (10::nat)"
  by presburger

lemma retained_nth:
  "i < unat (buf_packet_count b) \<Longrightarrow> retained b ! i = packets b ! ((unat (read_index b) + i) mod 10)"
  by (simp add: retained_def TELEMETRY_MAX_PACKETS_def)

lemma length_retained: "length (retained b) = unat (buf_packet_count b)"
  by (simp add: retained_def)

lemma count_less_10: "(c < (10::u32)) = (unat c < 10)"
  by (simp add: word_less_nat_alt)

lemma unat_count_succ: "unat (c::u32) < 10 \<Longrightarrow> unat (c + 1) = unat c + 1"
  by (simp add: unat_word_ariths)

lemma User_put_eq:
  "unat (buf_packet_count b) < 10 \<Longrightarrow>
   snd (User_Telemetry_BufferPut p b) =
     b\<lparr> packets := (packets b)[unat (write_index b) := p],
        write_index := (write_index b + 1) mod 10,
        buf_packet_count := buf_packet_count b + 1 \<rparr>"
  by (simp add: User_Telemetry_BufferPut_def Let_def TELEMETRY_MAX_PACKETS_def count_less_10)

lemma User_put_full_eq:
  "\<not> unat (buf_packet_count b) < 10 \<Longrightarrow>
   snd (User_Telemetry_BufferPut p b) =
     b\<lparr> packets := (packets b)[unat (write_index b) := p],
        write_index := (write_index b + 1) mod 10,
        read_index := (read_index b + 1) mod 10 \<rparr>"
  by (simp add: User_Telemetry_BufferPut_def Let_def TELEMETRY_MAX_PACKETS_def count_less_10)

lemma buffer_okD:
  assumes "buffer_ok b"
  shows "length (packets b) = 10" and "unat (read_index b) < 10"
    and "unat (buf_packet_count b) \<le> 10"
    and "unat (write_index b) = (unat (read_index b) + unat (buf_packet_count b)) mod 10"
    and "unat (write_index b) < 10"
  using assms by (simp_all add: buffer_ok_def TELEMETRY_MAX_PACKETS_def)

lemma User_put_not_full:
  assumes ok: "buffer_ok b" and c: "unat (buf_packet_count b) < 10"
  shows "buffer_ok (snd (User_Telemetry_BufferPut p b)) \<and>
         retained (snd (User_Telemetry_BufferPut p b)) = retained b @ [p]"
proof -
  let ?b = "snd (User_Telemetry_BufferPut p b)"
  let ?r = "unat (read_index b)" and ?c = "unat (buf_packet_count b)"
  note d = buffer_okD [OF ok]
  note eq = User_put_eq [OF c, of p]
  have c': "unat (buf_packet_count ?b) = ?c + 1" using c by (simp add: eq unat_count_succ)
  have r': "read_index ?b = read_index b" by (simp add: eq)
  have w': "unat (write_index ?b) = (?r + (?c + 1)) mod 10"
    using d(4,5) by (simp add: eq unat_succ_mod10 mod_Suc_eq)
  have l': "length (packets ?b) = 10" using d(1) by (simp add: eq)
  have p': "packets ?b = (packets b)[(?r + ?c) mod 10 := p]" using d(4) by (simp add: eq)
  have ok': "buffer_ok ?b"
    using c d(2) by (simp add: buffer_ok_def TELEMETRY_MAX_PACKETS_def c' r' w' l')
  have "retained ?b = retained b @ [p]"
  proof (rule nth_equalityI)
    show "length (retained ?b) = length (retained b @ [p])"
      by (simp add: length_retained c')
  next
    fix i assume "i < length (retained ?b)"
    then have i: "i < ?c + 1" by (simp add: length_retained c')
    have lhs: "retained ?b ! i = (packets b)[(?r + ?c) mod 10 := p] ! ((?r + i) mod 10)"
      using i by (simp add: retained_nth c' r' p')
    show "retained ?b ! i = (retained b @ [p]) ! i"
    proof (cases "i < ?c")
      case True
      then have "(?r + i) mod 10 \<noteq> (?r + ?c) mod 10" using c by (intro mod10_distinct) simp_all
      then have "(packets b)[(?r + ?c) mod 10 := p] ! ((?r + i) mod 10) = packets b ! ((?r + i) mod 10)"
        by simp
      then show ?thesis using True by (simp add: lhs nth_append length_retained retained_nth)
    next
      case False
      then have ic: "i = ?c" using i by simp
      have "retained ?b ! i = (packets b)[(?r + ?c) mod 10 := p] ! ((?r + ?c) mod 10)"
        using lhs by (simp only: ic)
      also have "\<dots> = p" using d(1) by simp
      finally have "retained ?b ! i = p" .
      moreover have "(retained b @ [p]) ! i = p" by (simp add: ic nth_append length_retained)
      ultimately show ?thesis by simp
    qed
  qed
  with ok' show ?thesis by simp
qed


lemma shift_mod10: "((r + 1) mod 10 + i) mod 10 = (r + (i + 1)) mod (10::nat)"
  by presburger

lemma User_put_full:
  assumes ok: "buffer_ok b" and c: "\<not> unat (buf_packet_count b) < 10"
  shows "buffer_ok (snd (User_Telemetry_BufferPut p b)) \<and>
         retained (snd (User_Telemetry_BufferPut p b)) = tl (retained b) @ [p]"
proof -
  let ?b = "snd (User_Telemetry_BufferPut p b)"
  let ?r = "unat (read_index b)"
  note d = buffer_okD [OF ok]
  note eq = User_put_full_eq [OF c, of p]
  have c10: "unat (buf_packet_count b) = 10" using c d(3) by simp
  have w: "unat (write_index b) = ?r" using d(2,4) by (simp add: c10)
  have c': "unat (buf_packet_count ?b) = 10" by (simp add: eq c10)
  have r': "unat (read_index ?b) = (?r + 1) mod 10" using d(2) by (simp add: eq unat_succ_mod10)
  have w': "unat (write_index ?b) = (?r + 1) mod 10" using d(2) by (simp add: eq unat_succ_mod10 w)
  have l': "length (packets ?b) = 10" using d(1) by (simp add: eq)
  have p': "packets ?b = (packets b)[?r := p]" by (simp add: eq w)
  have ok': "buffer_ok ?b"
    by (simp add: buffer_ok_def TELEMETRY_MAX_PACKETS_def c' r' w' l')
  have "retained ?b = tl (retained b) @ [p]"
  proof (rule nth_equalityI)
    show "length (retained ?b) = length (tl (retained b) @ [p])"
      by (simp add: length_retained c' c10)
  next
    fix i assume "i < length (retained ?b)"
    then have i: "i < 10" by (simp add: length_retained c')
    have idx: "(unat (read_index ?b) + i) mod 10 = (?r + (i + 1)) mod 10"
      unfolding r' by (rule shift_mod10)
    have "retained ?b ! i = packets ?b ! ((unat (read_index ?b) + i) mod 10)"
      using i by (simp only: retained_nth c')
    then have lhs: "retained ?b ! i = (packets b)[?r := p] ! ((?r + (i + 1)) mod 10)"
      by (simp only: idx p')
    show "retained ?b ! i = (tl (retained b) @ [p]) ! i"
    proof (cases "i < 9")
      case True
      have "(?r + 0) mod 10 \<noteq> (?r + (i + 1)) mod 10" using True by (intro mod10_distinct) simp_all
      then have "?r \<noteq> (?r + (i + 1)) mod 10" using d(2) by simp
      then have "(packets b)[?r := p] ! ((?r + (i + 1)) mod 10) = packets b ! ((?r + (i + 1)) mod 10)"
        by simp
      moreover have "(tl (retained b) @ [p]) ! i = packets b ! ((?r + (i + 1)) mod 10)"
        using True by (simp add: nth_append length_retained c10 nth_tl retained_nth)
      ultimately show ?thesis by (simp add: lhs)
    next
      case False
      then have i9: "i = 9" using i by simp
      have "retained ?b ! i = (packets b)[?r := p] ! ?r"
        using lhs d(2) by (simp add: i9)
      also have "\<dots> = p" using d(1,2) by simp
      finally have "retained ?b ! i = p" .
      moreover have "(tl (retained b) @ [p]) ! i = p"
        by (simp add: i9 nth_append length_retained c10)
      ultimately show ?thesis by simp
    qed
  qed
  with ok' show ?thesis by simp
qed

lemma Core_put_eq:
  "unat (buf_packet_count b) < 10 \<Longrightarrow>
   Core_Telemetry_BufferPut p b = (True, snd (User_Telemetry_BufferPut p b))"
  by (simp add: User_Telemetry_BufferPut_def Core_Telemetry_BufferPut_def Let_def
      TELEMETRY_MAX_PACKETS_def count_less_10)

lemma Core_put_full:
  "\<not> unat (buf_packet_count b) < 10 \<Longrightarrow> Core_Telemetry_BufferPut p b = (False, b)"
  by (simp add: Core_Telemetry_BufferPut_def TELEMETRY_MAX_PACKETS_def count_less_10)


lemma count_pos: "(0 < (c::u32)) = (0 < unat c)"
  by (simp add: word_less_nat_alt)

lemma last_mod10:
  assumes "0 < c"
  shows "((r + c) mod 10 + 9) mod 10 = (r + (c - 1)) mod (10::nat)"
proof -
  have "((r + c) mod 10 + 9) mod 10 = (r + c + 9) mod 10" by (rule mod_add_left_eq)
  also have "r + c + 9 = (r + (c - 1)) + 10" using assms by arith
  also have "((r + (c - 1)) + 10) mod 10 = (r + (c - 1)) mod 10" by (rule mod_add_self2)
  finally show ?thesis .
qed

lemma User_GetLastPacket_ok:
  assumes init: "telemetry_initialized st" and ok: "buffer_ok (telemetry_buffer st)"
  shows "User_Telemetry_GetLastPacket st =
           (if retained (telemetry_buffer st) = [] then None
            else Some (last (retained (telemetry_buffer st))), st)"
proof -
  let ?b = "telemetry_buffer st"
  let ?r = "unat (read_index ?b)" and ?c = "unat (buf_packet_count ?b)"
  note d = buffer_okD [OF ok]
  show ?thesis
  proof (cases "0 < ?c")
    case False
    then have "retained ?b = []" using length_retained [of ?b] by simp
    then show ?thesis using False init
      by (simp add: User_Telemetry_GetLastPacket_def count_pos)
  next
    case True
    then have ne: "retained ?b \<noteq> []" using length_retained [of ?b] by auto
    have "last (retained ?b) = retained ?b ! (?c - 1)"
      using ne by (simp add: last_conv_nth length_retained)
    also have "\<dots> = packets ?b ! ((?r + (?c - 1)) mod 10)"
      using True by (simp add: retained_nth)
    finally have l: "last (retained ?b) = packets ?b ! ((?r + (?c - 1)) mod 10)" .
    have "unat ((write_index ?b + 10 - 1) mod 10) = (unat (write_index ?b) + 9) mod 10"
      using d(5) by (rule unat_pred_mod10)
    also have "\<dots> = (?r + (?c - 1)) mod 10"
      unfolding d(4) using True by (rule last_mod10)
    finally have idx: "unat ((write_index ?b + 10 - 1) mod 10) = (?r + (?c - 1)) mod 10" .
    have res: "User_Telemetry_GetLastPacket st =
                 (Some (packets ?b ! unat ((write_index ?b + 10 - 1) mod 10)), st)"
      using True init
      by (simp add: User_Telemetry_GetLastPacket_def count_pos TELEMETRY_MAX_PACKETS_def Let_def)
    show ?thesis unfolding res idx using ne l by simp
  qed
qed

lemma Core_BufferGet_ok:
  assumes ok: "buffer_ok b"
  shows "Core_Telemetry_BufferGet b =
           (if retained b = [] then (None, b)
            else (Some (hd (retained b)), snd (Core_Telemetry_BufferGet b))) \<and>
         buffer_ok (snd (Core_Telemetry_BufferGet b)) \<and>
         retained (snd (Core_Telemetry_BufferGet b)) = tl (retained b)"
proof -
  let ?r = "unat (read_index b)" and ?c = "unat (buf_packet_count b)"
  let ?b = "snd (Core_Telemetry_BufferGet b)"
  note d = buffer_okD [OF ok]
  show ?thesis
  proof (cases "0 < ?c")
    case False
    then have "retained b = []" using length_retained [of b] by simp
    then show ?thesis using False ok
      by (simp add: Core_Telemetry_BufferGet_def count_pos)
  next
    case True
    then have ne: "retained b \<noteq> []" using length_retained [of b] by auto
    have eq: "Core_Telemetry_BufferGet b =
        (Some (packets b ! ?r),
         b\<lparr> read_index := (read_index b + 1) mod 10, buf_packet_count := buf_packet_count b - 1 \<rparr>)"
      using True by (simp add: Core_Telemetry_BufferGet_def count_pos TELEMETRY_MAX_PACKETS_def)
    have "hd (retained b) = retained b ! 0" using ne by (simp add: hd_conv_nth)
    also have "\<dots> = packets b ! ?r" using True d(2) by (simp add: retained_nth)
    finally have h: "hd (retained b) = packets b ! ?r" .
    have cne: "buf_packet_count b \<noteq> 0" using True by (auto simp: unat_eq_0)
    have c': "unat (buf_packet_count ?b) = ?c - 1" by (simp add: eq unat_minus_one [OF cne])
    have r': "unat (read_index ?b) = (?r + 1) mod 10" using d(2) by (simp add: eq unat_succ_mod10)
    have w': "write_index ?b = write_index b" by (simp add: eq)
    have p': "packets ?b = packets b" by (simp add: eq)
    have "((?r + 1) mod 10 + (?c - 1)) mod 10 = (?r + ((?c - 1) + 1)) mod 10" by (rule shift_mod10)
    then have widx: "((?r + 1) mod 10 + (?c - 1)) mod 10 = (?r + ?c) mod 10" using True by simp
    have wq: "unat (write_index ?b) = (unat (read_index ?b) + unat (buf_packet_count ?b)) mod 10"
      unfolding w' c' r' d(4) widx by (rule refl)
    have rq: "unat (read_index ?b) < 10" by (simp add: r')
    have cq: "unat (buf_packet_count ?b) \<le> 10" using d(3) by (simp add: c')
    have lq: "length (packets ?b) = 10" using d(1) by (simp add: p')
    have ok': "buffer_ok ?b"
      unfolding buffer_ok_def TELEMETRY_MAX_PACKETS_def using wq rq cq lq by blast
    have "retained ?b = tl (retained b)"
    proof (rule nth_equalityI)
      show "length (retained ?b) = length (tl (retained b))" by (simp add: length_retained c')
    next
      fix i assume "i < length (retained ?b)"
      then have i: "i < ?c - 1" by (simp add: length_retained c')
      have "retained ?b ! i = packets ?b ! ((unat (read_index ?b) + i) mod 10)"
        using i by (simp only: retained_nth c')
      also have "\<dots> = packets b ! ((?r + (i + 1)) mod 10)"
        by (simp only: r' p' shift_mod10)
      finally have lhs: "retained ?b ! i = packets b ! ((?r + (i + 1)) mod 10)" .
      have "tl (retained b) ! i = retained b ! (i + 1)"
        using i by (simp add: nth_tl length_retained)
      also have "\<dots> = packets b ! ((?r + (i + 1)) mod 10)"
        using i by (intro retained_nth) simp
      finally show "retained ?b ! i = tl (retained b) ! i" using lhs by simp
    qed
    with ok' ne h show ?thesis by (simp add: eq)
  qed
qed


lemma seq_next:
  assumes "s \<le> (65535::u32)"
  shows "unat (ucast (if s + 1 > 65535 then 0 else s + 1) :: u16) = (unat (ucast s :: u16) + 1) mod 65536"
proof -
  have s: "unat s \<le> 65535" using assms by (simp add: word_le_nat_alt)
  then have s1: "unat (s + 1) = unat s + 1" by (simp add: unat_word_ariths)
  have u: "unat (ucast s :: u16) = unat s" using s by (simp add: unsigned_ucast_eq take_bit_eq_mod)
  show ?thesis
  proof (cases "unat s = 65535")
    case True
    then have "s + 1 > 65535" using s1 by (simp add: word_less_nat_alt)
    then show ?thesis using True u by simp
  next
    case False
    then have lt: "unat s + 1 \<le> 65535" using s by simp
    then have "\<not> s + 1 > 65535" using s1 by (simp add: word_less_nat_alt)
    moreover have "unat (ucast (s + 1) :: u16) = unat s + 1"
      using lt s1 by (simp add: unsigned_ucast_eq take_bit_eq_mod)
    ultimately show ?thesis using u lt by simp
  qed
qed

lemma seq_wrap_le: "(if (s::u32) + 1 > 65535 then 0 else s + 1) \<le> 65535"
  by (auto simp: word_le_nat_alt word_less_nat_alt)

lemma sc_cases:
  "s \<in> {0, 512, 1024, 1536 :: u32} \<Longrightarrow>
   s + 512 \<le> 2048 \<and> s + 512 \<noteq> 0 \<and> (s + 512 \<ge> 2048) = (s = 1536) \<and>
   unat s + 512 \<le> 2048 \<and> s + 512 \<in> {512, 1024, 1536, 2048}"
  by auto

lemma length_memcpy_frame:
  "sample_offset + AUDIO_FRAME_SIZE \<le> length dst \<Longrightarrow>
   length (memcpy_frame dst sample_offset src) = length dst"
  by (simp add: memcpy_frame_def)

lemma ProcessBuffer_Some:
  "sample_count buf \<noteq> 0 \<Longrightarrow>
   \<exists>pkt. FeatureExtraction_ProcessBuffer now buf ctx =
           (Some pkt, ctx\<lparr> fx_seq_number :=
                          (if fx_seq_number ctx + 1 > 65535 then 0 else fx_seq_number ctx + 1) \<rparr>) \<and>
         seq_number pkt = ucast (fx_seq_number ctx) \<and>
         timestamp_ms pkt = start_timestamp_ms buf \<and>
         zcr_count pkt = ucast (sample_count buf div 2) \<and>
         rms_raw pkt = AudioFeatures_CalculateRMS (accumulated_samples buf) (sample_count buf) \<and>
         zcr_rate pkt = AudioFeatures_CalculateZCR (accumulated_samples buf) (sample_count buf) \<and>
         peak_amplitude pkt = AudioFeatures_FindPeakAmplitude (accumulated_samples buf) (sample_count buf) \<and>
         fft_band pkt = AudioFeatures_ComputeFFTBands (accumulated_samples buf)"
  by (simp add: FeatureExtraction_ProcessBuffer_def Let_def)

lemma accumulate_frame_eq:
  assumes sc: "sample_count (feature_buffer ctx) \<in> {0, 512, 1024, 1536}"
  shows "accumulate_frame frame ctx =
     ctx\<lparr> feature_buffer := (feature_buffer ctx)
             \<lparr> accumulated_samples :=
                 memcpy_frame (accumulated_samples (feature_buffer ctx))
                   (unat (sample_count (feature_buffer ctx))) (samples frame),
               sample_count := sample_count (feature_buffer ctx) + 512 \<rparr>,
          last_error_flags :=
            (if error_flags frame \<noteq> 0 then last_error_flags ctx OR ucast (error_flags frame)
             else last_error_flags ctx) \<rparr>"
  using sc_cases [OF sc]
  by (simp add: accumulate_frame_def Let_def AUDIO_FRAME_SIZE_def AUDIO_SAMPLES_PER_PACKET_def
      AUDIO_FRAMES_PER_PACKET_def)

lemma emit_packet_idle:
  "sample_count (feature_buffer ctx) \<in> {512, 1024, 1536} \<Longrightarrow> emit_packet now ctx = ctx"
  by (auto simp: emit_packet_def AUDIO_FRAME_SIZE_def AUDIO_SAMPLES_PER_PACKET_def
      AUDIO_FRAMES_PER_PACKET_def)


lemma emit_packet_full:
  assumes sc: "sample_count (feature_buffer ctx) = 2048"
  shows "\<exists>pkt. built_packet now ctx = Some pkt \<and>
           seq_number pkt = ucast (fx_seq_number ctx) \<and>
           timestamp_ms pkt = start_timestamp_ms (feature_buffer ctx) \<and>
           zcr_count pkt = 1024 \<and>
           rms_raw pkt = AudioFeatures_CalculateRMS (accumulated_samples (feature_buffer ctx)) 2048 \<and>
           zcr_rate pkt = AudioFeatures_CalculateZCR (accumulated_samples (feature_buffer ctx)) 2048 \<and>
           peak_amplitude pkt = AudioFeatures_FindPeakAmplitude (accumulated_samples (feature_buffer ctx)) 2048 \<and>
           fft_band pkt = AudioFeatures_ComputeFFTBands (accumulated_samples (feature_buffer ctx)) \<and>
           feature_buffer (emit_packet now ctx) = FeatureBuffer_zero \<and>
           last_error_flags (emit_packet now ctx) = 0 \<and>
           is_running (emit_packet now ctx) = is_running ctx \<and>
           fx_seq_number (emit_packet now ctx) =
             (if fx_seq_number ctx + 1 > 65535 then 0 else fx_seq_number ctx + 1) \<and>
           output_queue (emit_packet now ctx) =
             (if length (output_queue ctx) < FEATURE_EXTRACT_QUEUE_DEPTH
              then output_queue ctx @ [pkt] else output_queue ctx) \<and>
           packet_count (emit_packet now ctx) =
             (if length (output_queue ctx) < FEATURE_EXTRACT_QUEUE_DEPTH
              then packet_count ctx + 1 else packet_count ctx) \<and>
           fx_error_count (emit_packet now ctx) =
             (if length (output_queue ctx) < FEATURE_EXTRACT_QUEUE_DEPTH
              then fx_error_count ctx else fx_error_count ctx + 1)"
proof -
  have ne: "sample_count (feature_buffer ctx) \<noteq> 0" by (simp add: sc)
  from ProcessBuffer_Some [OF ne, of now ctx] obtain pkt where
    pb: "FeatureExtraction_ProcessBuffer now (feature_buffer ctx) ctx =
           (Some pkt, ctx\<lparr> fx_seq_number :=
                          (if fx_seq_number ctx + 1 > 65535 then 0 else fx_seq_number ctx + 1) \<rparr>)"
    and f: "seq_number pkt = ucast (fx_seq_number ctx)"
      "timestamp_ms pkt = start_timestamp_ms (feature_buffer ctx)"
      "zcr_count pkt = ucast (sample_count (feature_buffer ctx) div 2)"
      "rms_raw pkt = AudioFeatures_CalculateRMS (accumulated_samples (feature_buffer ctx)) (sample_count (feature_buffer ctx))"
      "zcr_rate pkt = AudioFeatures_CalculateZCR (accumulated_samples (feature_buffer ctx)) (sample_count (feature_buffer ctx))"
      "peak_amplitude pkt = AudioFeatures_FindPeakAmplitude (accumulated_samples (feature_buffer ctx)) (sample_count (feature_buffer ctx))"
      "fft_band pkt = AudioFeatures_ComputeFFTBands (accumulated_samples (feature_buffer ctx))"
    by blast
  have ge: "sample_count (feature_buffer ctx) \<ge> of_nat AUDIO_SAMPLES_PER_PACKET"
    by (simp add: sc AUDIO_FRAME_SIZE_def AUDIO_SAMPLES_PER_PACKET_def AUDIO_FRAMES_PER_PACKET_def)
  have b: "built_packet now ctx = Some pkt"
    using ge by (simp add: built_packet_def pb)
  have z: "zcr_count pkt = 1024" by (simp add: f(3) sc)
  have e: "emit_packet now ctx =
       (case tx_queue_send FEATURE_EXTRACT_QUEUE_DEPTH (output_queue ctx) pkt of
          (TX_SUCCESS, q) \<Rightarrow>
             ctx\<lparr> fx_seq_number := (if fx_seq_number ctx + 1 > 65535 then 0 else fx_seq_number ctx + 1),
                  output_queue := q, packet_count := packet_count ctx + 1,
                  feature_buffer := FeatureBuffer_zero, last_error_flags := 0 \<rparr>
        | (TX_QUEUE_FULL, q) \<Rightarrow>
             ctx\<lparr> fx_seq_number := (if fx_seq_number ctx + 1 > 65535 then 0 else fx_seq_number ctx + 1),
                  output_queue := q, fx_error_count := fx_error_count ctx + 1,
                  feature_buffer := FeatureBuffer_zero, last_error_flags := 0 \<rparr>)"
    using ge by (simp add: emit_packet_def pb Let_def split: prod.splits tx_status.splits)
  show ?thesis
    apply (rule exI [of _ pkt])
    apply (simp only: b z f(1,2,5,6,7) sc)
    apply (simp add: e tx_queue_send_def f(4) sc)
    done
qed


lemma fx_inv_Start: "fx_inv (FeatureExtraction_Start t0 FeatureExtraction_Init)"
  by (simp add: fx_inv_def FeatureExtraction_Start_def FeatureExtraction_Init_def
      FeatureBuffer_zero_def FEATURE_EXTRACT_QUEUE_DEPTH_def)

lemma accumulate_frame_fields:
  assumes inv: "fx_inv ctx"
  shows "sample_count (feature_buffer (accumulate_frame frame ctx)) =
           sample_count (feature_buffer ctx) + 512"
    and "length (accumulated_samples (feature_buffer (accumulate_frame frame ctx))) =
           AUDIO_SAMPLES_PER_PACKET"
    and "start_timestamp_ms (feature_buffer (accumulate_frame frame ctx)) = 0"
    and "fx_seq_number (accumulate_frame frame ctx) = fx_seq_number ctx"
    and "output_queue (accumulate_frame frame ctx) = output_queue ctx"
    and "packet_count (accumulate_frame frame ctx) = packet_count ctx"
    and "fx_error_count (accumulate_frame frame ctx) = fx_error_count ctx"
    and "is_running (accumulate_frame frame ctx) = is_running ctx"
proof -
  have sc: "sample_count (feature_buffer ctx) \<in> {0, 512, 1024, 1536}"
    and len: "length (accumulated_samples (feature_buffer ctx)) = AUDIO_SAMPLES_PER_PACKET"
    and ts: "start_timestamp_ms (feature_buffer ctx) = 0"
    using inv by (simp_all add: fx_inv_def)
  note eq = accumulate_frame_eq [OF sc, of frame]
  have "unat (sample_count (feature_buffer ctx)) + AUDIO_FRAME_SIZE
          \<le> length (accumulated_samples (feature_buffer ctx))"
    using sc_cases [OF sc]
    by (simp add: len AUDIO_FRAME_SIZE_def AUDIO_SAMPLES_PER_PACKET_def AUDIO_FRAMES_PER_PACKET_def)
  then show "length (accumulated_samples (feature_buffer (accumulate_frame frame ctx))) =
           AUDIO_SAMPLES_PER_PACKET"
    by (simp add: eq length_memcpy_frame len)
  show "sample_count (feature_buffer (accumulate_frame frame ctx)) =
           sample_count (feature_buffer ctx) + 512" by (simp add: eq)
  show "start_timestamp_ms (feature_buffer (accumulate_frame frame ctx)) = 0" by (simp add: eq ts)
  show "fx_seq_number (accumulate_frame frame ctx) = fx_seq_number ctx" by (simp add: eq)
  show "output_queue (accumulate_frame frame ctx) = output_queue ctx" by (simp add: eq)
  show "packet_count (accumulate_frame frame ctx) = packet_count ctx" by (simp add: eq)
  show "fx_error_count (accumulate_frame frame ctx) = fx_error_count ctx" by (simp add: eq)
  show "is_running (accumulate_frame frame ctx) = is_running ctx" by (simp add: eq)
qed

lemma fx_inv_frame:
  assumes inv: "fx_inv ctx"
  shows "fx_inv (emit_packet now (accumulate_frame frame ctx))"
proof -
  let ?a = "accumulate_frame frame ctx"
  note a = accumulate_frame_fields [OF inv, of frame]
  have sc: "sample_count (feature_buffer ctx) \<in> {0, 512, 1024, 1536}"
    and sq: "fx_seq_number ctx \<le> 65535"
    and q: "length (output_queue ctx) \<le> FEATURE_EXTRACT_QUEUE_DEPTH"
    using inv by (simp_all add: fx_inv_def)
  show ?thesis
  proof (cases "sample_count (feature_buffer ctx) = 1536")
    case False
    then have "sample_count (feature_buffer ?a) \<in> {512, 1024, 1536}"
      using sc by (auto simp: a(1))
    then have "emit_packet now ?a = ?a" by (rule emit_packet_idle)
    moreover have "fx_inv ?a"
      using False sc sq q by (auto simp: fx_inv_def a)
    ultimately show ?thesis by simp
  next
    case True
    then have "sample_count (feature_buffer ?a) = 2048" by (simp add: a(1))
    from emit_packet_full [OF this, of now] obtain pkt where
      e: "feature_buffer (emit_packet now ?a) = FeatureBuffer_zero"
         "fx_seq_number (emit_packet now ?a) =
            (if fx_seq_number ?a + 1 > 65535 then 0 else fx_seq_number ?a + 1)"
         "output_queue (emit_packet now ?a) =
            (if length (output_queue ?a) < FEATURE_EXTRACT_QUEUE_DEPTH
             then output_queue ?a @ [pkt] else output_queue ?a)"
      by blast
    show ?thesis
      using q seq_wrap_le [of "fx_seq_number ctx"]
      by (auto simp add: fx_inv_def e a FeatureBuffer_zero_def not_less)
  qed
qed

lemma fx_inv_ThreadEntry:
  "fx_inv ctx \<Longrightarrow> fx_inv (FeatureExtraction_ThreadEntry received now ctx)"
  by (cases received) (simp_all add: FeatureExtraction_ThreadEntry_def fx_inv_frame, simp_all add: fx_inv_def)

lemma fx_inv_run: "fx_inv ctx \<Longrightarrow> fx_inv (FeatureExtraction_run inputs ctx)"
proof (induction inputs arbitrary: ctx)
  case Nil
  then show ?case by (simp add: FeatureExtraction_run_def)
next
  case (Cons x xs)
  obtain received now where x: "x = (received, now)" by (cases x)
  have "fx_inv (FeatureExtraction_ThreadEntry received now ctx)"
    using Cons.prems by (rule fx_inv_ThreadEntry)
  from Cons.IH [OF this] show ?case by (simp add: FeatureExtraction_run_def x)
qed


lemma ge_2048_nonzero: "(2048::u32) \<le> s \<Longrightarrow> s \<noteq> 0"
  by auto

lemma accumulate_frame_counters:
  "fx_error_count (accumulate_frame frame ctx) = fx_error_count ctx \<and>
   packet_count (accumulate_frame frame ctx) = packet_count ctx \<and>
   output_queue (accumulate_frame frame ctx) = output_queue ctx"
  by (simp add: accumulate_frame_def Let_def)

lemma buffer_ok_Init:
  "length (packets b) = TELEMETRY_MAX_PACKETS \<Longrightarrow> buffer_ok (Telemetry_BufferInit b)"
  by (simp add: buffer_ok_def Telemetry_BufferInit_def TELEMETRY_MAX_PACKETS_def)

lemma retained_snoc_last: "retained b' = xs @ [p] \<Longrightarrow> retained b' \<noteq> [] \<and> last (retained b') = p"
  by simp

lemma unat_ucast_succ:
  "unat (ucast (s + 1 :: u32) :: u16) = (unat (ucast s :: u16) + 1) mod 65536"
proof -
  have "unat (ucast (s + 1) :: u16) = (unat s + 1) mod 4294967296 mod 65536"
    by (simp add: unsigned_ucast_eq take_bit_eq_mod unat_word_ariths)
  also have "\<dots> = (unat s + 1) mod 65536"
    by (rule mod_mod_cancel) simp
  also have "\<dots> = (unat s mod 65536 + 1) mod 65536"
    by (rule mod_add_left_eq [symmetric])
  also have "\<dots> = (unat (ucast s :: u16) + 1) mod 65536"
    by (simp add: unsigned_ucast_eq take_bit_eq_mod)
  finally show ?thesis .
qed

lemma User_ThreadEntry_received:
  "telemetry_buffer (User_Telemetry_ThreadEntry (RX_SUCCESS pkt) allocated appended sent st) =
     snd (User_Telemetry_BufferPut (pkt\<lparr> seq_number := ucast (sequence_number st) \<rparr>)
            (telemetry_buffer st)) \<and>
   sequence_number (User_Telemetry_ThreadEntry (RX_SUCCESS pkt) allocated appended sent st) =
     sequence_number st + 1 \<and>
   telemetry_initialized (User_Telemetry_ThreadEntry (RX_SUCCESS pkt) allocated appended sent st) =
     telemetry_initialized st"
  by (simp add: User_Telemetry_ThreadEntry_def User_Telemetry_SendUDP_def Let_def)

lemma User_put_ok_last:
  assumes ok: "buffer_ok b"
  shows "buffer_ok (snd (User_Telemetry_BufferPut p b)) \<and>
         retained (snd (User_Telemetry_BufferPut p b)) \<noteq> [] \<and>
         last (retained (snd (User_Telemetry_BufferPut p b))) = p"
  using User_put_not_full [OF ok, of p] User_put_full [OF ok, of p]
  by (cases "unat (buf_packet_count b) < 10"; simp)

lemma User_ThreadEntry_last:
  assumes init: "telemetry_initialized st" and ok: "buffer_ok (telemetry_buffer st)"
  shows "fst (User_Telemetry_GetLastPacket
                (User_Telemetry_ThreadEntry (RX_SUCCESS pkt) allocated appended sent st)) =
           Some (pkt\<lparr> seq_number := ucast (sequence_number st) \<rparr>) \<and>
         buffer_ok (telemetry_buffer
                (User_Telemetry_ThreadEntry (RX_SUCCESS pkt) allocated appended sent st))"
proof -
  let ?st = "User_Telemetry_ThreadEntry (RX_SUCCESS pkt) allocated appended sent st"
  note r = User_ThreadEntry_received [of pkt allocated appended sent st]
  note l = User_put_ok_last [OF ok, of "pkt\<lparr> seq_number := ucast (sequence_number st) \<rparr>"]
  have i: "telemetry_initialized ?st" using r init by simp
  have o: "buffer_ok (telemetry_buffer ?st)" using r l by simp
  show ?thesis
    using l o by (simp add: User_GetLastPacket_ok [OF i o] r)
qed

lemma Core_AddPacket_stamp:
  "core_telemetry_initialized cst \<Longrightarrow>
   fst (snd (Core_Telemetry_AddPacket allocated appended pkt cst)) =
     Some (pkt\<lparr> core_seq_number := core_sequence_number cst \<rparr>) \<and>
   core_sequence_number (snd (snd (Core_Telemetry_AddPacket allocated appended pkt cst))) =
     core_sequence_number cst + 1 \<and>
   core_telemetry_initialized (snd (snd (Core_Telemetry_AddPacket allocated appended pkt cst)))"
  by (simp add: Core_Telemetry_AddPacket_def Let_def split: prod.splits)


lemma memcpy_frame_full:
  "length src = AUDIO_FRAME_SIZE \<Longrightarrow>
   memcpy_frame dst sample_offset src =
     take sample_offset dst @ src @ drop (sample_offset + AUDIO_FRAME_SIZE) dst"
  using map_nth [of src] by (simp add: memcpy_frame_def)

lemma ThreadEntry_accumulates:
  assumes running: "is_running ctx"
    and sc: "sample_count (feature_buffer ctx) \<in> {0, 512, 1024}"
  shows "FeatureExtraction_ThreadEntry (RX_SUCCESS frame) now ctx =
     ctx\<lparr> feature_buffer := (feature_buffer ctx)
             \<lparr> accumulated_samples :=
                 memcpy_frame (accumulated_samples (feature_buffer ctx))
                   (unat (sample_count (feature_buffer ctx))) (samples frame),
               sample_count := sample_count (feature_buffer ctx) + 512 \<rparr>,
          last_error_flags :=
            (if error_flags frame \<noteq> 0 then last_error_flags ctx OR ucast (error_flags frame)
             else last_error_flags ctx) \<rparr>"
proof -
  have sc': "sample_count (feature_buffer ctx) \<in> {0, 512, 1024, 1536}" using sc by auto
  note eq = accumulate_frame_eq [OF sc', of frame]
  have "sample_count (feature_buffer (accumulate_frame frame ctx)) \<in> {512, 1024, 1536}"
    using sc by (auto simp: eq)
  then have "emit_packet now (accumulate_frame frame ctx) = accumulate_frame frame ctx"
    by (rule emit_packet_idle)
  then show ?thesis using running by (simp add: FeatureExtraction_ThreadEntry_def eq)
qed

lemma three_frames:
  assumes l: "length (samples f1) = 512" "length (samples f2) = 512" "length (samples f3) = 512"
  shows "\<exists>c. FeatureExtraction_run [(RX_SUCCESS f1, t1), (RX_SUCCESS f2, t2), (RX_SUCCESS f3, t3)]
           (FeatureExtraction_Start t0 FeatureExtraction_Init) = c \<and>
         is_running c \<and>
         feature_buffer c =
           \<lparr> accumulated_samples = samples f1 @ samples f2 @ samples f3 @ replicate 512 0,
             sample_count = 1536, start_timestamp_ms = 0, frame_count = 0 \<rparr> \<and>
         output_queue c = [] \<and> fx_seq_number c = 0 \<and> packet_count c = 0 \<and> fx_error_count c = 0"
proof -
  let ?c0 = "FeatureExtraction_Start t0 FeatureExtraction_Init"
  let ?c1 = "FeatureExtraction_ThreadEntry (RX_SUCCESS f1) t1 ?c0"
  let ?c2 = "FeatureExtraction_ThreadEntry (RX_SUCCESS f2) t2 ?c1"
  let ?c3 = "FeatureExtraction_ThreadEntry (RX_SUCCESS f3) t3 ?c2"
  have r0: "is_running ?c0" and q0: "output_queue ?c0 = []" "fx_seq_number ?c0 = 0"
      "packet_count ?c0 = 0" "fx_error_count ?c0 = 0"
    and b0: "feature_buffer ?c0 =
      \<lparr> accumulated_samples = replicate 2048 0, sample_count = 0, start_timestamp_ms = 0,
        frame_count = 0 \<rparr>"
    by (simp_all add: FeatureExtraction_Start_def FeatureExtraction_Init_def FeatureBuffer_zero_def
        AUDIO_FRAME_SIZE_def AUDIO_SAMPLES_PER_PACKET_def AUDIO_FRAMES_PER_PACKET_def)
  have s0: "sample_count (feature_buffer ?c0) \<in> {0, 512, 1024}" by (simp add: b0)
  note e1 = ThreadEntry_accumulates [OF r0 s0, of f1 t1]
  have r1: "is_running ?c1" and q1: "output_queue ?c1 = []" "fx_seq_number ?c1 = 0"
      "packet_count ?c1 = 0" "fx_error_count ?c1 = 0"
    and b1: "feature_buffer ?c1 =
      \<lparr> accumulated_samples = samples f1 @ replicate 1536 0, sample_count = 512,
        start_timestamp_ms = 0, frame_count = 0 \<rparr>"
    unfolding e1 using r0 q0 l(1)
    by (simp_all add: b0 memcpy_frame_full AUDIO_FRAME_SIZE_def)
  have s1: "sample_count (feature_buffer ?c1) \<in> {0, 512, 1024}" by (simp add: b1)
  note e2 = ThreadEntry_accumulates [OF r1 s1, of f2 t2]
  have r2: "is_running ?c2" and q2: "output_queue ?c2 = []" "fx_seq_number ?c2 = 0"
      "packet_count ?c2 = 0" "fx_error_count ?c2 = 0"
    and b2: "feature_buffer ?c2 =
      \<lparr> accumulated_samples = samples f1 @ samples f2 @ replicate 1024 0, sample_count = 1024,
        start_timestamp_ms = 0, frame_count = 0 \<rparr>"
    unfolding e2 using r1 q1 l(1,2)
    by (simp_all add: b1 memcpy_frame_full AUDIO_FRAME_SIZE_def)
  have s2: "sample_count (feature_buffer ?c2) \<in> {0, 512, 1024}" by (simp add: b2)
  note e3 = ThreadEntry_accumulates [OF r2 s2, of f3 t3]
  have r3: "is_running ?c3" and q3: "output_queue ?c3 = []" "fx_seq_number ?c3 = 0"
      "packet_count ?c3 = 0" "fx_error_count ?c3 = 0"
    and b3: "feature_buffer ?c3 =
      \<lparr> accumulated_samples = samples f1 @ samples f2 @ samples f3 @ replicate 512 0,
        sample_count = 1536, start_timestamp_ms = 0, frame_count = 0 \<rparr>"
    unfolding e3 using r2 q2 l
    by (simp_all add: b2 memcpy_frame_full AUDIO_FRAME_SIZE_def)
  have "FeatureExtraction_run [(RX_SUCCESS f1, t1), (RX_SUCCESS f2, t2), (RX_SUCCESS f3, t3)] ?c0 = ?c3"
    by (simp add: FeatureExtraction_run_def)
  then show ?thesis using r3 q3 b3 by simp
qed

lemma four_frames:
  assumes l: "length (samples f1) = 512" "length (samples f2) = 512" "length (samples f3) = 512"
    "length (samples f4) = 512"
  shows "\<exists>pkt. output_queue (FeatureExtraction_run
                    [(RX_SUCCESS f1, t1), (RX_SUCCESS f2, t2), (RX_SUCCESS f3, t3), (RX_SUCCESS f4, t4)]
                    (FeatureExtraction_Start t0 FeatureExtraction_Init)) = [pkt] \<and>
           seq_number pkt = 0 \<and>
           timestamp_ms pkt = 0 \<and>
           zcr_count pkt = 1024 \<and>
           rms_raw pkt =
             AudioFeatures_CalculateRMS (samples f1 @ samples f2 @ samples f3 @ samples f4) 2048 \<and>
           zcr_rate pkt =
             AudioFeatures_CalculateZCR (samples f1 @ samples f2 @ samples f3 @ samples f4) 2048 \<and>
           peak_amplitude pkt =
             AudioFeatures_FindPeakAmplitude (samples f1 @ samples f2 @ samples f3 @ samples f4) 2048 \<and>
           fft_band pkt =
             AudioFeatures_ComputeFFTBands (samples f1 @ samples f2 @ samples f3 @ samples f4)"
proof -
  let ?c0 = "FeatureExtraction_Start t0 FeatureExtraction_Init"
  let ?c3 = "FeatureExtraction_run [(RX_SUCCESS f1, t1), (RX_SUCCESS f2, t2), (RX_SUCCESS f3, t3)] ?c0"
  from three_frames [OF l(1,2,3), of t1 t2 t3 t0]
  have r: "is_running ?c3"
    and b: "feature_buffer ?c3 =
           \<lparr> accumulated_samples = samples f1 @ samples f2 @ samples f3 @ replicate 512 0,
             sample_count = 1536, start_timestamp_ms = 0, frame_count = 0 \<rparr>"
    and q: "output_queue ?c3 = []" "fx_seq_number ?c3 = 0"
    by simp_all
  let ?a = "accumulate_frame f4 ?c3"
  have sc: "sample_count (feature_buffer ?c3) \<in> {0, 512, 1024, 1536}" by (simp add: b)
  note eq = accumulate_frame_eq [OF sc, of f4]
  have ba: "feature_buffer ?a =
           \<lparr> accumulated_samples = samples f1 @ samples f2 @ samples f3 @ samples f4,
             sample_count = 2048, start_timestamp_ms = 0, frame_count = 0 \<rparr>"
    unfolding eq using l by (simp add: b memcpy_frame_full AUDIO_FRAME_SIZE_def)
  have qa: "output_queue ?a = []" "fx_seq_number ?a = 0" unfolding eq using q by simp_all
  have s2048: "sample_count (feature_buffer ?a) = 2048" by (simp add: ba)
  have run: "FeatureExtraction_run
               [(RX_SUCCESS f1, t1), (RX_SUCCESS f2, t2), (RX_SUCCESS f3, t3), (RX_SUCCESS f4, t4)] ?c0 =
             FeatureExtraction_ThreadEntry (RX_SUCCESS f4) t4 ?c3"
    by (simp add: FeatureExtraction_run_def)
  have te: "FeatureExtraction_ThreadEntry (RX_SUCCESS f4) t4 ?c3 = emit_packet t4 ?a"
    using r by (simp add: FeatureExtraction_ThreadEntry_def)
  from emit_packet_full [OF s2048, of t4] obtain pkt where
    p: "seq_number pkt = ucast (fx_seq_number ?a)"
       "timestamp_ms pkt = start_timestamp_ms (feature_buffer ?a)"
       "zcr_count pkt = 1024"
       "rms_raw pkt = AudioFeatures_CalculateRMS (accumulated_samples (feature_buffer ?a)) 2048"
       "zcr_rate pkt = AudioFeatures_CalculateZCR (accumulated_samples (feature_buffer ?a)) 2048"
       "peak_amplitude pkt = AudioFeatures_FindPeakAmplitude (accumulated_samples (feature_buffer ?a)) 2048"
       "fft_band pkt = AudioFeatures_ComputeFFTBands (accumulated_samples (feature_buffer ?a))"
       "output_queue (emit_packet t4 ?a) =
             (if length (output_queue ?a) < FEATURE_EXTRACT_QUEUE_DEPTH
              then output_queue ?a @ [pkt] else output_queue ?a)"
    by blast
  have "output_queue (emit_packet t4 ?a) = [pkt]"
    by (simp add: p(8) qa FEATURE_EXTRACT_QUEUE_DEPTH_def)
  then show ?thesis
    unfolding run te using p(1-7) by (intro exI [of _ pkt]) (simp add: ba qa)
qed

lemma foldl_count_none:
  "(\<And>i. i \<in> set xs \<Longrightarrow> \<not> P i) \<Longrightarrow> foldl (\<lambda>z i. if P i then z + 1 else z) z0 xs = z0"
  by (induction xs arbitrary: z0) simp_all

lemma zero_crossings_silence:
  assumes "\<And>i. i < unat count \<Longrightarrow> xs ! i = 0"
  shows "zero_crossings xs count = 0"
  unfolding zero_crossings_def
proof (rule foldl_count_none)
  fix i assume "i \<in> set [1..<unat count]"
  then have "i < unat count" "i - 1 < unat count" by auto
  then have "xs ! i = 0" "xs ! (i - 1) = 0" by (simp_all only: assms)
  then show "\<not> sign_change (xs ! (i - 1)) (xs ! i)" by (simp add: sign_change_def)
qed

lemma goertzel_cong:
  assumes "\<And>n. n < FFT_SIZE \<Longrightarrow> xs ! n = ys ! n"
  shows "goertzel coeff xs = goertzel coeff ys"
  unfolding goertzel_def
  by (rule foldl_cong) (simp_all add: assms split: prod.splits)

lemma ComputeFFTBands_cong:
  assumes "\<And>n. n < FFT_SIZE \<Longrightarrow> xs ! n = ys ! n"
  shows "AudioFeatures_ComputeFFTBands xs = AudioFeatures_ComputeFFTBands ys"
  by (simp add: AudioFeatures_ComputeFFTBands_def band_magnitude_def bin_energy_def
      goertzel_cong [OF assms])

lemma ComputeFFTBands_take:
  "AudioFeatures_ComputeFFTBands xs = AudioFeatures_ComputeFFTBands (take FFT_SIZE xs)"
  by (rule ComputeFFTBands_cong) simp

lemma foldl_fixed:
  "(\<And>n. n \<in> set ns \<Longrightarrow> f s n = s) \<Longrightarrow> foldl f s ns = s"
  by (induction ns) simp_all

lemma goertzel_silence:
  assumes "\<And>n. n < FFT_SIZE \<Longrightarrow> xs ! n = 0"
  shows "goertzel coeff xs = (0, 0)"
  unfolding goertzel_def
  by (rule foldl_fixed) (simp add: assms)+

lemma ComputeFFTBands_silence:
  assumes "\<And>n. n < FFT_SIZE \<Longrightarrow> xs ! n = 0"
  shows "AudioFeatures_ComputeFFTBands xs = replicate FFT_BANDS 0"
proof -
  have e: "bin_energy xs k = 0" for k
    by (simp add: bin_energy_def goertzel_silence [OF assms])
  have "foldl (\<lambda>e k. e + bin_energy xs k) 0 ks = 0" for ks
    by (rule foldl_fixed) (simp add: e)
  then have "band_magnitude xs band = 0" for band
    by (simp add: band_magnitude_def Let_def)
  then have "band_magnitude xs = (\<lambda>band. 0)" by (rule ext)
  then show ?thesis
    by (simp add: AudioFeatures_ComputeFFTBands_def map_replicate_const)
qed

lemma length_const_frame: "length (samples (const_frame v t)) = 512"
  by (simp add: const_frame_def AUDIO_FRAME_SIZE_def)

lemma built_packet_timestamp:
  assumes inv: "fx_inv ctx" and b: "built_packet now (accumulate_frame frame ctx) = Some pkt"
  shows "timestamp_ms pkt = 0 \<and> zcr_count pkt = 1024"
proof -
  let ?a = "accumulate_frame frame ctx"
  note a = accumulate_frame_fields [OF inv, of frame]
  have sc: "sample_count (feature_buffer ctx) \<in> {0, 512, 1024, 1536}"
    using inv by (simp add: fx_inv_def)
  have "sample_count (feature_buffer ?a) \<ge> of_nat AUDIO_SAMPLES_PER_PACKET"
    using b by (simp add: built_packet_def split: if_splits)
  then have "sample_count (feature_buffer ?a) = 2048"
    using sc
    by (auto simp: a(1) AUDIO_FRAME_SIZE_def AUDIO_SAMPLES_PER_PACKET_def AUDIO_FRAMES_PER_PACKET_def)
  from emit_packet_full [OF this, of now] b a(3) show ?thesis by auto
qed


lemma User_put_fst: "fst (User_Telemetry_BufferPut p b) = 1"
  by (simp add: User_Telemetry_BufferPut_def Let_def)

section \<open>Lemmas on the ranges of the feature functions\<close>

text \<open>
  The zero-crossing rate is at most 100 and the peak at most 32768 for every batch; over the
  reals, the RMS is at most 32767 and the SPL at most 120.
\<close>

lemma CalculateZCR_bound: "unat (AudioFeatures_CalculateZCR xs count) \<le> 100"
  by (auto simp: AudioFeatures_CalculateZCR_def Let_def word_le_nat_alt not_less word_less_nat_alt)

lemma unat_word_of_int_small:
  "0 \<le> k \<Longrightarrow> k \<le> m \<Longrightarrow> m < 65536 \<Longrightarrow> unat (word_of_int k :: u16) \<le> nat m"
  by (simp add: unat_eq_nat_uint uint_word_of_int take_bit_eq_mod)

lemma CalculateSPL_bound: "unat (AudioFeatures_CalculateSPL rms_q15 ref_pressure) \<le> 120"
proof -
  define spl0 where "spl0 = 20 * log 10
      ((if real (unat rms_q15) * ref_pressure / real (unat Q15_MAX) < 1 / 10000000 then 1 / 10000000
        else real (unat rms_q15) * ref_pressure / real (unat Q15_MAX)) / ref_pressure) + 84"
  define spl where "spl = (if (if spl0 < 0 then 0 else spl0) > 120 then 120 else (if spl0 < 0 then 0 else spl0))"
  have r: "0 \<le> spl" "spl \<le> 120" by (simp_all add: spl_def)
  then have "0 \<le> \<lfloor>spl\<rfloor>" "\<lfloor>spl\<rfloor> \<le> 120" by (simp_all add: floor_le_iff le_floor_iff)
  then have "unat (word_of_int \<lfloor>spl\<rfloor> :: u16) \<le> nat 120"
    by (rule unat_word_of_int_small) simp
  moreover have "AudioFeatures_CalculateSPL rms_q15 ref_pressure = word_of_int \<lfloor>spl\<rfloor>"
    by (simp add: AudioFeatures_CalculateSPL_def Let_def spl_def spl0_def)
  ultimately show ?thesis by simp
qed

lemma foldl_nonneg:
  "0 \<le> (s::real) \<Longrightarrow> (\<And>a i. 0 \<le> a \<Longrightarrow> 0 \<le> f a i) \<Longrightarrow> 0 \<le> foldl f s xs"
  by (induction xs arbitrary: s) simp_all

lemma sum_squares_nonneg: "0 \<le> sum_squares xs count"
  unfolding sum_squares_def by (rule foldl_nonneg) simp_all

lemma CalculateRMS_bound: "unat (AudioFeatures_CalculateRMS xs count) \<le> 32767"
proof (cases "count = 0")
  case True
  then show ?thesis by (simp add: AudioFeatures_CalculateRMS_def)
next
  case False
  define n where "n = sqrt (sum_squares xs count / real (unat count)) / 32768"
  have "0 \<le> real (unat count)" by (rule of_nat_0_le_iff)
  with sum_squares_nonneg have "0 \<le> sum_squares xs count / real (unat count)"
    by (rule divide_nonneg_nonneg)
  then have n0: "0 \<le> n" by (simp add: n_def)
  show ?thesis
  proof (cases "n > 99999 / 100000")
    case True
    then show ?thesis using False
      by (simp add: AudioFeatures_CalculateRMS_def Let_def n_def Q15_MAX_def)
  next
    case le: False
    then have "n * 32767 \<le> 32767" by simp
    then have "\<lfloor>n * 32767\<rfloor> \<le> 32767" by (simp add: floor_le_iff)
    moreover have "0 \<le> \<lfloor>n * 32767\<rfloor>" using n0 by simp
    ultimately have "unat (word_of_int \<lfloor>n * 32767\<rfloor> :: u16) \<le> nat 32767"
      by (intro unat_word_of_int_small) simp_all
    then show ?thesis using False le
      by (simp add: AudioFeatures_CalculateRMS_def Let_def n_def Q15_MAX_def)
  qed
qed


lemma int16_low: "0 \<le> (x::int) \<Longrightarrow> x < 32768 \<Longrightarrow> (x + 32768) mod 65536 = x + 32768"
  by (rule mod_pos_pos_trivial) simp_all
lemma int16_high: "32768 \<le> (x::int) \<Longrightarrow> x < 65536 \<Longrightarrow> (x + 32768) mod 65536 = x - 32768"
proof -
  assume a: "32768 \<le> x" "x < 65536"
  have "x + 32768 = (x - 32768) + 65536" by arith
  then have "(x + 32768) mod 65536 = ((x - 32768) + 65536) mod 65536" by (rule arg_cong)
  also have "\<dots> = (x - 32768) mod 65536" by (rule mod_add_self2)
  also have "\<dots> = x - 32768" using a by (intro mod_pos_pos_trivial) simp_all
  finally show ?thesis .
qed
lemma int16_neg: "32768 \<le> (x::int) \<Longrightarrow> x < 65536 \<Longrightarrow> (- x) mod 65536 = 65536 - x"
proof -
  assume a: "32768 \<le> x" "x < 65536"
  have "(- x) mod 65536 = (- x + 65536) mod 65536" by (rule mod_add_self2 [symmetric])
  also have "- x + 65536 = 65536 - x" by arith
  also have "(65536 - x) mod 65536 = 65536 - x" using a by (intro mod_pos_pos_trivial) simp_all
  finally show ?thesis .
qed
lemma unat_le_of_uint: "unat (w::u16) \<le> 32768" if "uint w \<le> 32768"
  using that unfolding uint_nat by linarith

lemma sint16: "sint (s::s16) = (if uint s < 32768 then uint s else uint s - 65536)"
proof -
  have u: "0 \<le> uint s" "uint s < 65536" using uint_lt2p [of s] by simp_all
  have e: "sint s = (uint s + 32768) mod 65536 - 32768"
    by (simp add: sint_uint signed_take_bit_eq_take_bit_shift take_bit_eq_mod)
  show ?thesis
  proof (cases "uint s < 32768")
    case True
    show ?thesis unfolding e int16_low [OF u(1) True] using True by simp
  next
    case False
    then have h: "32768 \<le> uint s" by simp
    show ?thesis unfolding e int16_high [OF h u(2)] using False by simp
  qed
qed

lemma abs16_bound: "unat (if sint (s::s16) < 0 then - s else s) \<le> 32768"
proof -
  have u: "0 \<le> uint s" "uint s < 65536" using uint_lt2p [of s] by simp_all
  show ?thesis
  proof (cases "uint s < 32768")
    case True
    then have "\<not> sint s < 0" using u by (simp add: sint16)
    moreover have "unat s \<le> 32768" using True by (intro unat_le_of_uint) simp
    ultimately show ?thesis by simp
  next
    case False
    then have h: "32768 \<le> uint s" by simp
    have neg: "sint s < 0" using False u by (simp add: sint16)
    have "uint (- s) = (- uint s) mod 65536" by (simp add: uint_word_ariths)
    also have "\<dots> = 65536 - uint s" using h u(2) by (rule int16_neg)
    finally have "uint (- s) \<le> 32768" using h by simp
    then have "unat (- s) \<le> 32768" by (rule unat_le_of_uint)
    then show ?thesis using neg by simp
  qed
qed

lemma foldl_peak_bound:
  "unat peak \<le> 32768 \<Longrightarrow> unat (foldl (peak_step xs) peak ns) \<le> 32768"
proof (induction ns arbitrary: peak)
  case Nil
  then show ?case by simp
next
  case (Cons n ns)
  have "unat (peak_step xs peak n) \<le> 32768"
    using Cons.prems abs16_bound [of "xs ! n"] by (simp add: peak_step_def Let_def)
  then show ?case using Cons.IH by simp
qed

lemma FindPeakAmplitude_bound: "unat (AudioFeatures_FindPeakAmplitude xs count) \<le> 32768"
  using foldl_peak_bound [of 0 xs] by (simp add: AudioFeatures_FindPeakAmplitude_def)


section \<open>Lemmas on the sequence numbers\<close>

text \<open>One round of the extractor, and the packets built over a sequence of rounds.\<close>

lemma accumulate_frame_seq: "fx_seq_number (accumulate_frame frame ctx) = fx_seq_number ctx"
  by (simp add: accumulate_frame_def Let_def)

lemma emit_packet_ge:
  assumes ge: "sample_count (feature_buffer a) \<ge> of_nat AUDIO_SAMPLES_PER_PACKET"
  shows "\<exists>pkt. built_packet now a = Some pkt \<and>
           seq_number pkt = ucast (fx_seq_number a) \<and>
           fx_seq_number (emit_packet now a) =
             (if fx_seq_number a + 1 > 65535 then 0 else fx_seq_number a + 1) \<and>
           output_queue (emit_packet now a) =
             (if length (output_queue a) < FEATURE_EXTRACT_QUEUE_DEPTH
              then output_queue a @ [pkt] else output_queue a)"
proof -
  have "2048 \<le> sample_count (feature_buffer a)"
    using ge
    by (simp add: AUDIO_FRAME_SIZE_def AUDIO_SAMPLES_PER_PACKET_def AUDIO_FRAMES_PER_PACKET_def)
  then have ne: "sample_count (feature_buffer a) \<noteq> 0" by (rule ge_2048_nonzero)
  from ProcessBuffer_Some [OF ne, of now a] obtain pkt where
    pb: "FeatureExtraction_ProcessBuffer now (feature_buffer a) a =
           (Some pkt, a\<lparr> fx_seq_number :=
                          (if fx_seq_number a + 1 > 65535 then 0 else fx_seq_number a + 1) \<rparr>)"
    and sq: "seq_number pkt = ucast (fx_seq_number a)"
    by blast
  have b: "built_packet now a = Some pkt" using ge by (simp add: built_packet_def pb)
  have e: "fx_seq_number (emit_packet now a) =
             (if fx_seq_number a + 1 > 65535 then 0 else fx_seq_number a + 1) \<and>
           output_queue (emit_packet now a) =
             (if length (output_queue a) < FEATURE_EXTRACT_QUEUE_DEPTH
              then output_queue a @ [pkt] else output_queue a)"
    using ge by (simp add: emit_packet_def pb tx_queue_send_def Let_def)
  from b sq e show ?thesis by blast
qed

lemma emit_packet_lt:
  assumes lt: "\<not> sample_count (feature_buffer a) \<ge> of_nat AUDIO_SAMPLES_PER_PACKET"
  shows "built_packet now a = None \<and> emit_packet now a = a"
  using lt by (simp add: built_packet_def emit_packet_def)

lemma unat_seq_next:
  assumes "s \<le> (65535::u32)"
  shows "unat (ucast s :: u16) = unat s"
    and "unat (if s + 1 > 65535 then 0 else s + 1) = (unat s + 1) mod 65536"
proof -
  have s: "unat s \<le> 65535" using assms by (simp add: word_le_nat_alt)
  then have s1: "unat (s + 1) = unat s + 1" by (simp add: unat_word_ariths)
  show "unat (ucast s :: u16) = unat s" using s by (simp add: unsigned_ucast_eq take_bit_eq_mod)
  show "unat (if s + 1 > 65535 then 0 else s + 1) = (unat s + 1) mod 65536"
  proof (cases "unat s = 65535")
    case True
    then have "s + 1 > 65535" using s1 by (simp add: word_less_nat_alt)
    then show ?thesis using True by simp
  next
    case False
    then have lt: "unat s + 1 \<le> 65535" using s by simp
    then have "\<not> s + 1 > 65535" using s1 by (simp add: word_less_nat_alt)
    then show ?thesis using lt s1 by simp
  qed
qed

lemma extractor_round:
  assumes seq: "fx_seq_number ctx \<le> 65535"
  shows "fx_seq_number (FeatureExtraction_ThreadEntry received now ctx) \<le> 65535 \<and>
         (case round_packet received now ctx of
            None \<Rightarrow>
              fx_seq_number (FeatureExtraction_ThreadEntry received now ctx) = fx_seq_number ctx \<and>
              output_queue (FeatureExtraction_ThreadEntry received now ctx) = output_queue ctx
          | Some pkt \<Rightarrow>
              unat (seq_number pkt) = unat (fx_seq_number ctx) \<and>
              unat (fx_seq_number (FeatureExtraction_ThreadEntry received now ctx)) =
                (unat (fx_seq_number ctx) + 1) mod 65536 \<and>
              output_queue (FeatureExtraction_ThreadEntry received now ctx) =
                (if length (output_queue ctx) < FEATURE_EXTRACT_QUEUE_DEPTH
                 then output_queue ctx @ [pkt] else output_queue ctx))"
proof (cases "is_running ctx")
  case False
  then show ?thesis using seq by (simp add: FeatureExtraction_ThreadEntry_def round_packet_def)
next
  case True
  show ?thesis
  proof (cases received)
    case RX_QUEUE_EMPTY
    then show ?thesis using True seq
      by (simp add: FeatureExtraction_ThreadEntry_def round_packet_def)
  next
    case RX_ERROR
    then show ?thesis using True seq
      by (simp add: FeatureExtraction_ThreadEntry_def round_packet_def)
  next
    case (RX_SUCCESS frame)
    let ?a = "accumulate_frame frame ctx"
    have t: "FeatureExtraction_ThreadEntry received now ctx = emit_packet now ?a"
      and r: "round_packet received now ctx = built_packet now ?a"
      using True RX_SUCCESS by (simp_all add: FeatureExtraction_ThreadEntry_def round_packet_def)
    have a: "fx_seq_number ?a = fx_seq_number ctx" "output_queue ?a = output_queue ctx"
      using accumulate_frame_seq [of frame ctx] accumulate_frame_counters [of frame ctx] by simp_all
    show ?thesis
    proof (cases "sample_count (feature_buffer ?a) \<ge> of_nat AUDIO_SAMPLES_PER_PACKET")
      case ge: True
      from emit_packet_ge [OF ge, of now] obtain pkt where
        p: "built_packet now ?a = Some pkt" "seq_number pkt = ucast (fx_seq_number ?a)"
          "fx_seq_number (emit_packet now ?a) =
             (if fx_seq_number ?a + 1 > 65535 then 0 else fx_seq_number ?a + 1)"
          "output_queue (emit_packet now ?a) =
             (if length (output_queue ?a) < FEATURE_EXTRACT_QUEUE_DEPTH
              then output_queue ?a @ [pkt] else output_queue ?a)"
        by blast
      define nxt where "nxt = (if fx_seq_number ctx + 1 > 65535 then 0 else fx_seq_number ctx + 1)"
      have n1: "nxt \<le> 65535" unfolding nxt_def by (rule seq_wrap_le)
      have n2: "unat nxt = (unat (fx_seq_number ctx) + 1) mod 65536"
        unfolding nxt_def by (rule unat_seq_next(2) [OF seq])
      have n3: "fx_seq_number (emit_packet now ?a) = nxt"
        unfolding nxt_def using p(3) by (simp only: a)
      have n4: "unat (seq_number pkt) = unat (fx_seq_number ctx)"
        using p(2) unat_seq_next(1) [OF seq] by (simp only: a)
      have n5: "output_queue (emit_packet now ?a) =
             (if length (output_queue ctx) < FEATURE_EXTRACT_QUEUE_DEPTH
              then output_queue ctx @ [pkt] else output_queue ctx)"
        using p(4) by (simp only: a)
      show ?thesis
        unfolding t r p(1) using n1 n2 n4 n5 by (simp add: n3)
    next
      case lt: False
      from emit_packet_lt [OF lt, of now] show ?thesis
        unfolding t r using seq a by simp
    qed
  qed
qed

lemma mod_shift_65536: "(Suc s mod 65536 + k) mod 65536 = Suc (s + k) mod (65536::nat)"
proof -
  have "(Suc s mod 65536 + k) mod 65536 = (Suc s + k) mod 65536" by (rule mod_add_left_eq)
  then show ?thesis by simp
qed

lemma built_trace_numbers:
  "fx_seq_number ctx \<le> 65535 \<Longrightarrow>
   map (\<lambda>p. unat (seq_number p)) (built_trace inputs ctx) =
     map (\<lambda>k. (unat (fx_seq_number ctx) + k) mod 65536) [0..<length (built_trace inputs ctx)]"
proof (induction inputs arbitrary: ctx)
  case Nil
  then show ?case by simp
next
  case (Cons x rest)
  obtain received now where x: "x = (received, now)" by (cases x)
  let ?c = "FeatureExtraction_ThreadEntry received now ctx"
  note r = extractor_round [OF Cons.prems, of received now]
  have le: "fx_seq_number ?c \<le> 65535" using r by simp
  note ih = Cons.IH [OF le]
  have u: "unat (fx_seq_number ctx) < 65536"
    using Cons.prems by (simp add: word_le_nat_alt)
  show ?case
  proof (cases "round_packet received now ctx")
    case None
    then have "fx_seq_number ?c = fx_seq_number ctx" using r by simp
    then show ?thesis using ih None by (simp add: x)
  next
    case (Some pkt)
    then have p: "unat (seq_number pkt) = unat (fx_seq_number ctx)"
      and n: "unat (fx_seq_number ?c) = (unat (fx_seq_number ctx) + 1) mod 65536"
      using r by simp_all
    show ?thesis
      using u by (simp add: x Some ih p n map_upt_Suc mod_shift_65536 del: upt_Suc)
  qed
qed

text \<open>The same for the two senders that stamp the packets themselves.\<close>

lemma mod_shift_u32_16: "(unat (s + 1 :: u32) + k) mod 65536 = Suc (unat s + k) mod 65536"
proof -
  have "(unat (s + 1) + k) mod 65536 = (Suc (unat s) mod 4294967296 + k) mod 65536"
    by (simp add: unat_word_ariths)
  also have "\<dots> = (Suc (unat s) mod 4294967296 mod 65536 + k) mod 65536"
    by (rule mod_add_left_eq [symmetric])
  also have "Suc (unat s) mod 4294967296 mod 65536 = Suc (unat s) mod 65536"
    by (rule mod_mod_cancel) simp
  also have "(Suc (unat s) mod 65536 + k) mod 65536 = Suc (unat s + k) mod 65536"
    by (rule mod_shift_65536)
  finally show ?thesis .
qed

lemma mod_shift_u32_32: "(unat (s + 1 :: u32) + k) mod 4294967296 = Suc (unat s + k) mod 4294967296"
proof -
  have "(unat (s + 1) + k) mod 4294967296 = (Suc (unat s) mod 4294967296 + k) mod 4294967296"
    by (simp add: unat_word_ariths)
  also have "\<dots> = (Suc (unat s) + k) mod 4294967296"
    by (rule mod_add_left_eq)
  finally show ?thesis by simp
qed

lemma User_round:
  "(case User_stamped received st of
      None \<Rightarrow>
        sequence_number (User_Telemetry_ThreadEntry received allocated appended sent st) =
          sequence_number st \<and>
        user_sent (User_Telemetry_ThreadEntry received allocated appended sent st) = user_sent st
    | Some pkt \<Rightarrow>
        unat (seq_number pkt) = unat (sequence_number st) mod 65536 \<and>
        sequence_number (User_Telemetry_ThreadEntry received allocated appended sent st) =
          sequence_number st + 1 \<and>
        user_sent (User_Telemetry_ThreadEntry received allocated appended sent st) =
          (if telemetry_started st \<and> allocated = NX_SUCCESS \<and> appended = NX_SUCCESS \<and>
              sent = NX_SUCCESS
           then user_sent st @ [\<lparr> dst_ip = 0xFFFFFFFF, dst_port = 5001, payload = packet_bytes pkt \<rparr>]
           else user_sent st))"
  by (cases received)
    (simp_all add: User_Telemetry_ThreadEntry_def User_stamped_def User_Telemetry_SendUDP_def
      Let_def unsigned_ucast_eq take_bit_eq_mod)

lemma User_trace_numbers:
  "map (\<lambda>p. unat (seq_number p)) (User_stamped_trace rounds st) =
     map (\<lambda>k. (unat (sequence_number st) + k) mod 65536)
       [0..<length (User_stamped_trace rounds st)]"
proof (induction rounds arbitrary: st)
  case Nil
  then show ?case by simp
next
  case (Cons x rest)
  obtain received allocated appended sent where x: "x = (received, allocated, appended, sent)"
    by (cases x)
  let ?s = "User_Telemetry_ThreadEntry received allocated appended sent st"
  note r = User_round [where received = received and st = st and allocated = allocated and
      appended = appended and sent = sent]
  note ih = Cons.IH [of ?s]
  show ?case
  proof (cases "User_stamped received st")
    case None
    then have "sequence_number ?s = sequence_number st" using r by simp
    then show ?thesis using ih None by (simp add: x)
  next
    case (Some pkt)
    then have p: "unat (seq_number pkt) = unat (sequence_number st) mod 65536"
      and n: "sequence_number ?s = sequence_number st + 1"
      using r by simp_all
    show ?thesis
      by (simp add: x Some ih p n map_upt_Suc mod_shift_u32_16 del: upt_Suc)
  qed
qed

lemma Core_AddPacket_cases:
  "(case fst (snd (Core_Telemetry_AddPacket allocated appended packet st)) of
      None \<Rightarrow> snd (snd (Core_Telemetry_AddPacket allocated appended packet st)) = st
    | Some pkt \<Rightarrow>
        core_seq_number pkt = core_sequence_number st \<and>
        core_sequence_number (snd (snd (Core_Telemetry_AddPacket allocated appended packet st))) =
          core_sequence_number st + 1)"
  by (simp add: Core_Telemetry_AddPacket_def Let_def split: prod.splits)

lemma Core_trace_numbers:
  "map (\<lambda>p. unat (core_seq_number p)) (Core_stamped_trace calls st) =
     map (\<lambda>k. (unat (core_sequence_number st) + k) mod 4294967296)
       [0..<length (Core_stamped_trace calls st)]"
proof (induction calls arbitrary: st)
  case Nil
  then show ?case by simp
next
  case (Cons x rest)
  obtain allocated appended packet where x: "x = (allocated, appended, packet)" by (cases x)
  let ?r = "Core_Telemetry_AddPacket allocated appended packet st"
  note c = Core_AddPacket_cases [where allocated = allocated and appended = appended and
      packet = packet and st = st]
  note ih = Cons.IH [of "snd (snd ?r)"]
  have u: "unat (core_sequence_number st) < 4294967296"
    using unsigned_less [of "core_sequence_number st"] by simp
  show ?case
  proof (cases "fst (snd ?r)")
    case None
    then have "snd (snd ?r) = st" using c by simp
    then show ?thesis using ih None by (simp add: x)
  next
    case (Some pkt)
    then have p: "core_seq_number pkt = core_sequence_number st"
      and n: "core_sequence_number (snd (snd ?r)) = core_sequence_number st + 1"
      using c by simp_all
    show ?thesis
      using u by (simp add: x Some ih p n map_upt_Suc mod_shift_u32_32 del: upt_Suc)
  qed
qed

text \<open>Four frames from an empty accumulator build one packet; runs on frames of silence.\<close>

lemma run_Cons:
  "FeatureExtraction_run ((received, now) # rest) ctx =
     FeatureExtraction_run rest (FeatureExtraction_ThreadEntry received now ctx)"
  by (simp add: FeatureExtraction_run_def)

lemma run_append:
  "FeatureExtraction_run (xs @ ys) ctx = FeatureExtraction_run ys (FeatureExtraction_run xs ctx)"
  by (simp add: FeatureExtraction_run_def)

lemma built_trace_append:
  "built_trace (xs @ ys) ctx = built_trace xs ctx @ built_trace ys (FeatureExtraction_run xs ctx)"
proof (induction xs arbitrary: ctx)
  case Nil
  then show ?case by (simp add: FeatureExtraction_run_def)
next
  case (Cons x xs)
  obtain received now where x: "x = (received, now)" by (cases x)
  show ?case by (simp add: x Cons.IH run_Cons)
qed

lemma round_idle:
  assumes sc: "sample_count (feature_buffer ctx) \<in> {0, 512, 1024}"
  shows "round_packet (RX_SUCCESS frame) now ctx = None"
proof (cases "is_running ctx")
  case False
  then show ?thesis by (simp add: round_packet_def)
next
  case True
  have sc': "sample_count (feature_buffer ctx) \<in> {0, 512, 1024, 1536}" using sc by auto
  have "sample_count (feature_buffer (accumulate_frame frame ctx)) \<in> {512, 1024, 1536}"
    using sc by (auto simp: accumulate_frame_eq [OF sc'])
  then have "\<not> sample_count (feature_buffer (accumulate_frame frame ctx))
                \<ge> of_nat AUDIO_SAMPLES_PER_PACKET"
    by (auto simp: AUDIO_FRAME_SIZE_def AUDIO_SAMPLES_PER_PACKET_def AUDIO_FRAMES_PER_PACKET_def)
  from emit_packet_lt [OF this, of now] show ?thesis using True by (simp add: round_packet_def)
qed

lemma ThreadEntry_accumulates_fields:
  assumes running: "is_running ctx"
    and sc: "sample_count (feature_buffer ctx) \<in> {0, 512, 1024}"
  shows "is_running (FeatureExtraction_ThreadEntry (RX_SUCCESS frame) now ctx)"
    and "sample_count (feature_buffer (FeatureExtraction_ThreadEntry (RX_SUCCESS frame) now ctx)) =
           sample_count (feature_buffer ctx) + 512"
    and "fx_seq_number (FeatureExtraction_ThreadEntry (RX_SUCCESS frame) now ctx) = fx_seq_number ctx"
    and "output_queue (FeatureExtraction_ThreadEntry (RX_SUCCESS frame) now ctx) = output_queue ctx"
  unfolding ThreadEntry_accumulates [OF running sc] using running by simp_all

lemma batch_of_four:
  assumes inv: "fx_inv ctx" and running: "is_running ctx"
    and sc: "sample_count (feature_buffer ctx) = 0"
  shows "\<exists>pkt.
           built_trace [(RX_SUCCESS f1, t1), (RX_SUCCESS f2, t2), (RX_SUCCESS f3, t3), (RX_SUCCESS f4, t4)]
             ctx = [pkt] \<and>
           seq_number pkt = ucast (fx_seq_number ctx) \<and>
           fx_inv (FeatureExtraction_run
             [(RX_SUCCESS f1, t1), (RX_SUCCESS f2, t2), (RX_SUCCESS f3, t3), (RX_SUCCESS f4, t4)] ctx) \<and>
           is_running (FeatureExtraction_run
             [(RX_SUCCESS f1, t1), (RX_SUCCESS f2, t2), (RX_SUCCESS f3, t3), (RX_SUCCESS f4, t4)] ctx) \<and>
           sample_count (feature_buffer (FeatureExtraction_run
             [(RX_SUCCESS f1, t1), (RX_SUCCESS f2, t2), (RX_SUCCESS f3, t3), (RX_SUCCESS f4, t4)] ctx)) = 0 \<and>
           fx_seq_number (FeatureExtraction_run
             [(RX_SUCCESS f1, t1), (RX_SUCCESS f2, t2), (RX_SUCCESS f3, t3), (RX_SUCCESS f4, t4)] ctx) =
             (if fx_seq_number ctx + 1 > 65535 then 0 else fx_seq_number ctx + 1) \<and>
           output_queue (FeatureExtraction_run
             [(RX_SUCCESS f1, t1), (RX_SUCCESS f2, t2), (RX_SUCCESS f3, t3), (RX_SUCCESS f4, t4)] ctx) =
             (if length (output_queue ctx) < FEATURE_EXTRACT_QUEUE_DEPTH
              then output_queue ctx @ [pkt] else output_queue ctx)"
proof -
  let ?rs = "[(RX_SUCCESS f1, t1), (RX_SUCCESS f2, t2), (RX_SUCCESS f3, t3), (RX_SUCCESS f4, t4)]"
  let ?c1 = "FeatureExtraction_ThreadEntry (RX_SUCCESS f1) t1 ctx"
  let ?c2 = "FeatureExtraction_ThreadEntry (RX_SUCCESS f2) t2 ?c1"
  let ?c3 = "FeatureExtraction_ThreadEntry (RX_SUCCESS f3) t3 ?c2"
  let ?a = "accumulate_frame f4 ?c3"
  have s0: "sample_count (feature_buffer ctx) \<in> {0, 512, 1024}" by (simp add: sc)
  note f1 = ThreadEntry_accumulates_fields [OF running s0, of f1 t1]
  have s1: "sample_count (feature_buffer ?c1) \<in> {0, 512, 1024}" by (simp add: f1(2) sc)
  note f2 = ThreadEntry_accumulates_fields [OF f1(1) s1, of f2 t2]
  have s2: "sample_count (feature_buffer ?c2) \<in> {0, 512, 1024}" by (simp add: f2(2) f1(2) sc)
  note f3 = ThreadEntry_accumulates_fields [OF f2(1) s2, of f3 t3]
  have c3: "sample_count (feature_buffer ?c3) = 1536" by (simp add: f3(2) f2(2) f1(2) sc)
  have q3: "fx_seq_number ?c3 = fx_seq_number ctx" "output_queue ?c3 = output_queue ctx"
    by (simp_all add: f3 f2 f1)
  have s3: "sample_count (feature_buffer ?c3) \<in> {0, 512, 1024, 1536}" by (simp add: c3)
  have a: "sample_count (feature_buffer ?a) = 2048" "fx_seq_number ?a = fx_seq_number ctx"
    "output_queue ?a = output_queue ctx" "is_running ?a"
    unfolding accumulate_frame_eq [OF s3] using f3(1) by (simp_all add: c3 q3)
  from emit_packet_full [OF a(1), of t4] obtain pkt where
    p: "built_packet t4 ?a = Some pkt" "seq_number pkt = ucast (fx_seq_number ?a)"
       "feature_buffer (emit_packet t4 ?a) = FeatureBuffer_zero"
       "is_running (emit_packet t4 ?a) = is_running ?a"
       "fx_seq_number (emit_packet t4 ?a) =
             (if fx_seq_number ?a + 1 > 65535 then 0 else fx_seq_number ?a + 1)"
       "output_queue (emit_packet t4 ?a) =
             (if length (output_queue ?a) < FEATURE_EXTRACT_QUEUE_DEPTH
              then output_queue ?a @ [pkt] else output_queue ?a)"
    by blast
  have run: "FeatureExtraction_run ?rs ctx = emit_packet t4 ?a"
    using f3(1) by (simp add: FeatureExtraction_run_def FeatureExtraction_ThreadEntry_def)
  have r4: "round_packet (RX_SUCCESS f4) t4 ?c3 = Some pkt"
    using f3(1) p(1) by (simp add: round_packet_def)
  have tr: "built_trace ?rs ctx = [pkt]"
    by (simp add: round_idle [OF s0] round_idle [OF s1] round_idle [OF s2] r4)
  have i: "fx_inv (FeatureExtraction_run ?rs ctx)" using inv by (rule fx_inv_run)
  show ?thesis
    apply (rule exI [of _ pkt])
    apply (simp only: tr p(2) a(2) i simp_thms)
    apply (simp add: run p a FeatureBuffer_zero_def)
    done
qed

lemma silent_rounds_4:
  "silent_rounds 4 =
     [(RX_SUCCESS (const_frame 0 0), 0), (RX_SUCCESS (const_frame 0 0), 0),
      (RX_SUCCESS (const_frame 0 0), 0), (RX_SUCCESS (const_frame 0 0), 0)]"
  by (simp add: silent_rounds_def eval_nat_numeral)

lemma silent_rounds_12: "silent_rounds 12 = silent_rounds 4 @ silent_rounds 4 @ silent_rounds 4"
  by (simp add: silent_rounds_def replicate_add [symmetric])

lemma silent_batch:
  assumes inv: "fx_inv ctx" and running: "is_running ctx"
    and sc: "sample_count (feature_buffer ctx) = 0"
  shows "\<exists>pkt.
           built_trace (silent_rounds 4) ctx = [pkt] \<and>
           seq_number pkt = ucast (fx_seq_number ctx) \<and>
           fx_inv (FeatureExtraction_run (silent_rounds 4) ctx) \<and>
           is_running (FeatureExtraction_run (silent_rounds 4) ctx) \<and>
           sample_count (feature_buffer (FeatureExtraction_run (silent_rounds 4) ctx)) = 0 \<and>
           fx_seq_number (FeatureExtraction_run (silent_rounds 4) ctx) =
             (if fx_seq_number ctx + 1 > 65535 then 0 else fx_seq_number ctx + 1) \<and>
           output_queue (FeatureExtraction_run (silent_rounds 4) ctx) =
             (if length (output_queue ctx) < FEATURE_EXTRACT_QUEUE_DEPTH
              then output_queue ctx @ [pkt] else output_queue ctx)"
  unfolding silent_rounds_4 using inv running sc by (rule batch_of_four)

lemma sender_takes_fields:
  "is_running (sender_takes ctx) = is_running ctx"
  "feature_buffer (sender_takes ctx) = feature_buffer ctx"
  "fx_seq_number (sender_takes ctx) = fx_seq_number ctx"
  "output_queue (sender_takes ctx) = tl (output_queue ctx)"
  by (cases "output_queue ctx"; simp add: sender_takes_def tx_queue_receive_def)+

lemma fx_inv_sender_takes: "fx_inv ctx \<Longrightarrow> fx_inv (sender_takes ctx)"
  by (auto simp: fx_inv_def sender_takes_fields)

lemma twelve_silent_rounds:
  "\<exists>p0 p1 p2 p3.
     seq_number p0 = 0 \<and> seq_number p1 = 1 \<and> seq_number p2 = 2 \<and> seq_number p3 = 3 \<and>
     built_trace (silent_rounds 12) (FeatureExtraction_Start 0 FeatureExtraction_Init) = [p0, p1, p2] \<and>
     output_queue (FeatureExtraction_run (silent_rounds 12)
       (FeatureExtraction_Start 0 FeatureExtraction_Init)) = [p0, p1] \<and>
     output_queue (FeatureExtraction_run (silent_rounds 4)
       (sender_takes (sender_takes (FeatureExtraction_run (silent_rounds 12)
          (FeatureExtraction_Start 0 FeatureExtraction_Init))))) = [p3]"
proof -
  let ?s0 = "FeatureExtraction_Start 0 FeatureExtraction_Init"
  let ?b1 = "FeatureExtraction_run (silent_rounds 4) ?s0"
  let ?b2 = "FeatureExtraction_run (silent_rounds 4) ?b1"
  let ?b3 = "FeatureExtraction_run (silent_rounds 4) ?b2"
  let ?d = "sender_takes (sender_takes ?b3)"
  have i0: "fx_inv ?s0" by (rule fx_inv_Start)
  have r0: "is_running ?s0" "sample_count (feature_buffer ?s0) = 0" "fx_seq_number ?s0 = 0"
    "output_queue ?s0 = []"
    by (simp_all add: FeatureExtraction_Start_def FeatureExtraction_Init_def FeatureBuffer_zero_def)
  from silent_batch [OF i0 r0(1,2)] obtain p0 where
    b1: "built_trace (silent_rounds 4) ?s0 = [p0]" "seq_number p0 = 0" "fx_inv ?b1"
      "is_running ?b1" "sample_count (feature_buffer ?b1) = 0" "fx_seq_number ?b1 = 1"
      "output_queue ?b1 = [p0]"
    by (auto simp: r0 FEATURE_EXTRACT_QUEUE_DEPTH_def)
  from silent_batch [OF b1(3,4,5)] obtain p1 where
    b2: "built_trace (silent_rounds 4) ?b1 = [p1]" "seq_number p1 = 1" "fx_inv ?b2"
      "is_running ?b2" "sample_count (feature_buffer ?b2) = 0" "fx_seq_number ?b2 = 2"
      "output_queue ?b2 = [p0, p1]"
    by (auto simp: b1 FEATURE_EXTRACT_QUEUE_DEPTH_def)
  from silent_batch [OF b2(3,4,5)] obtain p2 where
    b3: "built_trace (silent_rounds 4) ?b2 = [p2]" "seq_number p2 = 2" "fx_inv ?b3"
      "is_running ?b3" "sample_count (feature_buffer ?b3) = 0" "fx_seq_number ?b3 = 3"
      "output_queue ?b3 = [p0, p1]"
    by (auto simp: b2 FEATURE_EXTRACT_QUEUE_DEPTH_def)
  have d: "fx_inv ?d" "is_running ?d" "sample_count (feature_buffer ?d) = 0"
    "fx_seq_number ?d = 3" "output_queue ?d = []"
    using b3 by (simp_all add: fx_inv_sender_takes sender_takes_fields)
  from silent_batch [OF d(1,2,3)] obtain p3 where
    b4: "seq_number p3 = 3" "output_queue (FeatureExtraction_run (silent_rounds 4) ?d) = [p3]"
    by (auto simp: d FEATURE_EXTRACT_QUEUE_DEPTH_def)
  have run: "FeatureExtraction_run (silent_rounds 12) ?s0 = ?b3"
    by (simp add: silent_rounds_12 run_append)
  have tr: "built_trace (silent_rounds 12) ?s0 = [p0, p1, p2]"
    by (simp add: silent_rounds_12 built_trace_append run_append b1 b2 b3)
  show ?thesis
    apply (rule exI [of _ p0], rule exI [of _ p1], rule exI [of _ p2], rule exI [of _ p3])
    apply (simp only: run tr b1 b2 b3 b4 simp_thms)
    done
qed

lemma upt_3: "[0..<3] = [0, 1, 2]"
  by (simp add: upt_rec)

lemma upt_2: "[0..<2] = [0, 1]"
  by (simp add: upt_rec)

section \<open>The claims\<close>

text \<open>
  C1 (as amended).  The packed wire packet of audio\_features.h always serialises to
  exactly 64 bytes, whatever its field values; the unpacked packet of
  Core/Inc/app\_telemetry.h, which Core/Src/app\_telemetry.c sends with
  \<open>sizeof(AudioTelemetryPacket_t)\<close>, serialises to 68 bytes.
\<close>

theorem packet_size_64_core_68:
  "length (packet_bytes p) = 64 \<and> length (core_packet_bytes q) = 68"
  by (simp add: packet_bytes_def core_packet_bytes_def length_le16 length_le32
      length_concat_le32 FFT_BANDS_def)

text \<open>
  C1 (as stated) fails for the packet type of the Core telemetry module: its all-zero
  instance does not occupy 64 bytes.
\<close>

theorem core_packet_not_64_bytes:
  "length (core_packet_bytes core_zero_packet) \<noteq> 64"
  by (simp add: core_packet_bytes_def length_le32 length_concat_le32)


text \<open>
  C2.  The claim bounds the peak by 32767, as the function's own comment does
  (\<open>@retval Peak absolute value (0-32767)\<close>); the code returns 32768 for a batch whose only
  sample is \<open>-32768\<close>, because the negation of that \<open>int16_t\<close> is \<open>-32768\<close> again and
  reads as 32768 once cast to \<open>uint16_t\<close>.
\<close>

theorem FindPeakAmplitude_min_sample:
  "AudioFeatures_FindPeakAmplitude [- 32768] 1 = 32768 \<and>
   \<not> unat (AudioFeatures_FindPeakAmplitude [- 32768] 1) \<le> 32767"
  by (simp add: AudioFeatures_FindPeakAmplitude_def peak_step_def)


text \<open>
  C3 (as amended).  Every packet that \<open>FeatureExtraction_ProcessBuffer\<close> builds takes
  the current value of the extractor's sequence counter, and the counter then advances by 1
  modulo 65536, whether or not the packet finds room in the output queue: over any sequence
  of rounds of the extractor's loop the numbers of the packets built are consecutive modulo
  65536, so 65535 is followed by 0, and the packet of a round joins the output queue only
  when the queue holds fewer than \<open>FEATURE_EXTRACT_QUEUE_DEPTH\<close> packets.  The sender
  thread of the STM32CubeIDE app\_telemetry.c stamps every packet it receives with its own
  counter modulo 65536, consecutively over any sequence of rounds, and the datagram of a
  round reaches the wire only when the module is started and the three NetX calls succeed.
  The packets stamped by \<open>Telemetry_AddPacket\<close> of Core/Src/app\_telemetry.c carry a 32-bit
  sequence number, consecutive modulo \<open>2^32\<close>.  So the numbers of the packets that are
  enqueued or transmitted skip the numbers of the packets that were dropped.  The
  extractor's counter is assumed to hold a 16-bit value, as it does from
  \<open>FeatureExtraction_Init\<close> on.
\<close>

theorem sequence_numbers_of_built_packets:
  assumes seq: "fx_seq_number ctx \<le> 65535"
  shows "map (\<lambda>p. unat (seq_number p)) (built_trace inputs ctx) =
           map (\<lambda>k. (unat (fx_seq_number ctx) + k) mod 65536)
             [0..<length (built_trace inputs ctx)] \<and>
         fx_seq_number (FeatureExtraction_ThreadEntry received now ctx) \<le> 65535 \<and>
         (case round_packet received now ctx of
            None \<Rightarrow>
              fx_seq_number (FeatureExtraction_ThreadEntry received now ctx) = fx_seq_number ctx \<and>
              output_queue (FeatureExtraction_ThreadEntry received now ctx) = output_queue ctx
          | Some pkt \<Rightarrow>
              unat (seq_number pkt) = unat (fx_seq_number ctx) \<and>
              unat (fx_seq_number (FeatureExtraction_ThreadEntry received now ctx)) =
                (unat (fx_seq_number ctx) + 1) mod 65536 \<and>
              output_queue (FeatureExtraction_ThreadEntry received now ctx) =
                (if length (output_queue ctx) < FEATURE_EXTRACT_QUEUE_DEPTH
                 then output_queue ctx @ [pkt] else output_queue ctx)) \<and>
         map (\<lambda>p. unat (seq_number p)) (User_stamped_trace rounds st) =
           map (\<lambda>k. (unat (sequence_number st) + k) mod 65536)
             [0..<length (User_stamped_trace rounds st)] \<and>
         (case User_stamped packet st of
            None \<Rightarrow>
              sequence_number (User_Telemetry_ThreadEntry packet allocated appended sent st) =
                sequence_number st \<and>
              user_sent (User_Telemetry_ThreadEntry packet allocated appended sent st) = user_sent st
          | Some pkt \<Rightarrow>
              unat (seq_number pkt) = unat (sequence_number st) mod 65536 \<and>
              sequence_number (User_Telemetry_ThreadEntry packet allocated appended sent st) =
                sequence_number st + 1 \<and>
              user_sent (User_Telemetry_ThreadEntry packet allocated appended sent st) =
                (if telemetry_started st \<and> allocated = NX_SUCCESS \<and> appended = NX_SUCCESS \<and>
                    sent = NX_SUCCESS
                 then user_sent st @
                      [\<lparr> dst_ip = 0xFFFFFFFF, dst_port = 5001, payload = packet_bytes pkt \<rparr>]
                 else user_sent st)) \<and>
         map (\<lambda>p. unat (core_seq_number p)) (Core_stamped_trace calls cst) =
           map (\<lambda>k. (unat (core_sequence_number cst) + k) mod 4294967296)
             [0..<length (Core_stamped_trace calls cst)]"
  using built_trace_numbers [OF seq, of inputs] extractor_round [OF seq, of received now]
    User_trace_numbers [of rounds st]
    User_round [where received = packet and st = st and allocated = allocated and
      appended = appended and sent = sent]
    Core_trace_numbers [of calls cst]
  by (intro conjI) simp_all

theorem sequence_numbers_of_built_packets_witness:
  "map (\<lambda>p. unat (seq_number p))
     (built_trace (silent_rounds 12) (FeatureExtraction_Start 0 FeatureExtraction_Init)) = [0, 1, 2] \<and>
   map_option (\<lambda>p. unat (seq_number p))
     (round_packet (RX_SUCCESS (const_frame 0 0)) 0 (full_queue_ctx\<lparr> fx_seq_number := 65535 \<rparr>)) =
     Some 65535 \<and>
   fx_seq_number (FeatureExtraction_ThreadEntry (RX_SUCCESS (const_frame 0 0)) 0
     (full_queue_ctx\<lparr> fx_seq_number := 65535 \<rparr>)) = 0 \<and>
   output_queue (FeatureExtraction_ThreadEntry (RX_SUCCESS (const_frame 0 0)) 0
     (full_queue_ctx\<lparr> fx_seq_number := 65535 \<rparr>)) = [zero_packet, zero_packet] \<and>
   map (\<lambda>p. unat (seq_number p))
     (User_stamped_trace send_fails_once (User_Telemetry_Init\<lparr> sequence_number := 65535 \<rparr>)) =
     [65535, 0, 1] \<and>
   sequence_number (User_Telemetry_ThreadEntry (RX_SUCCESS zero_packet) NX_SUCCESS NX_SUCCESS
     (NX_FAILED 1) (User_Telemetry_Init\<lparr> sequence_number := 65535 \<rparr>)) = 65536 \<and>
   user_sent (User_Telemetry_ThreadEntry (RX_SUCCESS zero_packet) NX_SUCCESS NX_SUCCESS
     (NX_FAILED 1) (User_Telemetry_Init\<lparr> sequence_number := 65535 \<rparr>)) = [] \<and>
   map (\<lambda>p. unat (core_seq_number p))
     (Core_stamped_trace wrap_calls (Core_Telemetry_Init\<lparr> core_sequence_number := 65535 \<rparr>)) =
     [65535, 65536]"
proof -
  let ?s0 = "FeatureExtraction_Start 0 FeatureExtraction_Init"
  let ?w = "full_queue_ctx\<lparr> fx_seq_number := 65535 \<rparr>"
  let ?f = "const_frame 0 0"
  let ?u = "User_Telemetry_Init\<lparr> sequence_number := 65535 \<rparr>"
  let ?c = "Core_Telemetry_Init\<lparr> core_sequence_number := 65535 \<rparr>"
  have s0: "fx_seq_number ?s0 \<le> 65535" "unat (fx_seq_number ?s0) = 0"
    by (simp_all add: FeatureExtraction_Start_def FeatureExtraction_Init_def)
  have w: "fx_seq_number ?w \<le> 65535" "unat (fx_seq_number ?w) = 65535"
    "output_queue ?w = [zero_packet, zero_packet]" "is_running ?w"
    by (simp_all add: full_queue_ctx_def FeatureExtraction_Start_def)
  have l3: "length (built_trace (silent_rounds 12) ?s0) = 3"
    using twelve_silent_rounds by auto
  have sc: "sample_count (feature_buffer ?w) \<in> {0, 512, 1024, 1536}"
    by (simp add: full_queue_ctx_def)
  have "sample_count (feature_buffer (accumulate_frame ?f ?w)) = 2048"
    unfolding accumulate_frame_eq [OF sc] by (simp add: full_queue_ctx_def)
  from emit_packet_full [OF this, of 0] obtain pkt where
    "built_packet 0 (accumulate_frame ?f ?w) = Some pkt" by blast
  then have r: "round_packet (RX_SUCCESS ?f) 0 ?w = Some pkt"
    using w(4) by (simp add: round_packet_def)
  have u: "length (User_stamped_trace send_fails_once ?u) = 3"
    "User_stamped (RX_SUCCESS zero_packet) ?u =
       Some (zero_packet\<lparr> seq_number := ucast (sequence_number ?u) \<rparr>)"
    "user_sent ?u = []" "unat (sequence_number ?u) = 65535"
    by (simp_all add: send_fails_once_def User_stamped_def User_Telemetry_Init_def)
  have c: "length (Core_stamped_trace wrap_calls ?c) = 2" "unat (core_sequence_number ?c) = 65535"
    by (simp_all add: wrap_calls_def Core_Telemetry_AddPacket_def Core_Telemetry_Init_def Let_def
        split: prod.splits)
  note a = sequence_numbers_of_built_packets [OF s0(1), where inputs = "silent_rounds 12" and
      rounds = send_fails_once and st = ?u and packet = "RX_SUCCESS zero_packet" and
      allocated = NX_SUCCESS and appended = NX_SUCCESS and sent = "NX_FAILED 1" and
      calls = wrap_calls and cst = ?c and received = RX_QUEUE_EMPTY and now = 0]
  note b = sequence_numbers_of_built_packets [OF w(1), where inputs = "[]" and
      rounds = "[]" and st = ?u and packet = RX_QUEUE_EMPTY and
      allocated = NX_SUCCESS and appended = NX_SUCCESS and sent = NX_SUCCESS and
      calls = "[]" and cst = ?c and received = "RX_SUCCESS ?f" and now = 0]
  have e1: "map (\<lambda>p. unat (seq_number p)) (built_trace (silent_rounds 12) ?s0) = [0, 1, 2]"
    using a by (simp add: l3 s0(2) upt_3)
  have e2: "map_option (\<lambda>p. unat (seq_number p)) (round_packet (RX_SUCCESS ?f) 0 ?w) = Some 65535"
    and e3: "unat (fx_seq_number (FeatureExtraction_ThreadEntry (RX_SUCCESS ?f) 0 ?w)) = 0"
    and e4: "output_queue (FeatureExtraction_ThreadEntry (RX_SUCCESS ?f) 0 ?w) =
               [zero_packet, zero_packet]"
    using b by (simp_all add: r w(2,3) FEATURE_EXTRACT_QUEUE_DEPTH_def)
  have e3': "fx_seq_number (FeatureExtraction_ThreadEntry (RX_SUCCESS ?f) 0 ?w) = 0"
    using e3 by (simp add: unat_eq_0)
  have e5: "map (\<lambda>p. unat (seq_number p)) (User_stamped_trace send_fails_once ?u) = [65535, 0, 1]"
    using a by (simp add: u(1,4) upt_3)
  have e6: "sequence_number (User_Telemetry_ThreadEntry (RX_SUCCESS zero_packet) NX_SUCCESS
              NX_SUCCESS (NX_FAILED 1) ?u) = 65536"
    and e7: "user_sent (User_Telemetry_ThreadEntry (RX_SUCCESS zero_packet) NX_SUCCESS
              NX_SUCCESS (NX_FAILED 1) ?u) = []"
    using a by (simp_all add: u(2,3))
  have e8: "map (\<lambda>p. unat (core_seq_number p)) (Core_stamped_trace wrap_calls ?c) = [65535, 65536]"
    using a by (simp add: c upt_2)
  from e1 e2 e3' e4 e5 e6 e7 e8 show ?thesis by (intro conjI)
qed


text \<open>
  C3 (as stated) fails: the numbers of the emitted packets skip.  From the start, twelve
  frames of silence with nobody receiving build the packets 0, 1 and 2, and the output queue
  of depth 2 keeps 0 and 1; once the sender has taken both, four more frames enqueue packet
  3, so the sender receives 0, 1, 3.  The sender thread of the STM32CubeIDE
  app\_telemetry.c whose second \<open>nx_udp_socket_send\<close> fails puts the packets 0 and 2 on
  the wire.  In Core/Src/app\_telemetry.c, whose packet has a \<open>uint32_t\<close> sequence
  number, the packet after number 65535 has number 65536, not 0.
\<close>

theorem emitted_sequence_numbers_skip:
  "map seq_number (built_trace (silent_rounds 12)
     (FeatureExtraction_Start 0 FeatureExtraction_Init)) = [0, 1, 2] \<and>
   map seq_number (output_queue (FeatureExtraction_run (silent_rounds 12)
     (FeatureExtraction_Start 0 FeatureExtraction_Init))) = [0, 1] \<and>
   map seq_number (output_queue (FeatureExtraction_run (silent_rounds 4)
     (sender_takes (sender_takes (FeatureExtraction_run (silent_rounds 12)
        (FeatureExtraction_Start 0 FeatureExtraction_Init)))))) = [3] \<and>
   map payload (user_sent (User_Telemetry_run send_fails_once User_Telemetry_Init)) =
     [packet_bytes (zero_packet\<lparr> seq_number := 0 \<rparr>),
      packet_bytes (zero_packet\<lparr> seq_number := 2 \<rparr>)] \<and>
   map core_seq_number
     (Core_stamped_trace wrap_calls (Core_Telemetry_Init\<lparr> core_sequence_number := 65535 \<rparr>)) =
     [65535, 65536] \<and>
   (65536 :: u32) \<noteq> 0"
proof -
  from twelve_silent_rounds obtain p0 p1 p2 p3 where
    p: "seq_number p0 = 0" "seq_number p1 = 1" "seq_number p2 = 2" "seq_number p3 = 3"
      "built_trace (silent_rounds 12) (FeatureExtraction_Start 0 FeatureExtraction_Init) =
         [p0, p1, p2]"
      "output_queue (FeatureExtraction_run (silent_rounds 12)
         (FeatureExtraction_Start 0 FeatureExtraction_Init)) = [p0, p1]"
      "output_queue (FeatureExtraction_run (silent_rounds 4)
         (sender_takes (sender_takes (FeatureExtraction_run (silent_rounds 12)
            (FeatureExtraction_Start 0 FeatureExtraction_Init))))) = [p3]"
    by blast
  have u: "map payload (user_sent (User_Telemetry_run send_fails_once User_Telemetry_Init)) =
     [packet_bytes (zero_packet\<lparr> seq_number := 0 \<rparr>),
      packet_bytes (zero_packet\<lparr> seq_number := 2 \<rparr>)]"
    by (simp add: User_Telemetry_run_def send_fails_once_def User_Telemetry_ThreadEntry_def
        User_Telemetry_SendUDP_def User_Telemetry_Init_def Let_def)
  have c: "map core_seq_number
     (Core_stamped_trace wrap_calls (Core_Telemetry_Init\<lparr> core_sequence_number := 65535 \<rparr>)) =
     [65535, 65536]"
    by (simp add: wrap_calls_def Core_Telemetry_AddPacket_def Core_Telemetry_Init_def Let_def
        split: prod.splits)
  have n: "(65536 :: u32) \<noteq> 0" by simp
  show ?thesis by (simp only: p u c n list.map simp_thms)
qed


text \<open>
  C6.  When a received frame completes the batch while the output queue already holds
  \<open>FEATURE_EXTRACT_QUEUE_DEPTH\<close> packets, the send with \<open>TX_NO_WAIT\<close> returns
  \<open>TX_QUEUE_FULL\<close> and leaves the queue as it is, the extractor's error counter grows by
  exactly 1, its packet counter keeps its value and the accumulator is reset to zero.
\<close>

theorem enqueue_on_full_queue:
  assumes running: "is_running ctx"
    and finished: "sample_count (feature_buffer (accumulate_frame frame ctx)) \<ge> of_nat AUDIO_SAMPLES_PER_PACKET"
    and full: "length (output_queue ctx) \<ge> FEATURE_EXTRACT_QUEUE_DEPTH"
  shows "(\<exists>pkt. built_packet now (accumulate_frame frame ctx) = Some pkt \<and>
              tx_queue_send FEATURE_EXTRACT_QUEUE_DEPTH (output_queue ctx) pkt =
                (TX_QUEUE_FULL, output_queue ctx)) \<and>
         fx_error_count (FeatureExtraction_ThreadEntry (RX_SUCCESS frame) now ctx) =
           fx_error_count ctx + 1 \<and>
         packet_count (FeatureExtraction_ThreadEntry (RX_SUCCESS frame) now ctx) =
           packet_count ctx \<and>
         output_queue (FeatureExtraction_ThreadEntry (RX_SUCCESS frame) now ctx) =
           output_queue ctx \<and>
         feature_buffer (FeatureExtraction_ThreadEntry (RX_SUCCESS frame) now ctx) = FeatureBuffer_zero"
proof -
  let ?a = "accumulate_frame frame ctx"
  note k = accumulate_frame_counters [of frame ctx]
  have ge: "2048 \<le> sample_count (feature_buffer ?a)"
    using finished
    by (simp add: AUDIO_FRAME_SIZE_def AUDIO_SAMPLES_PER_PACKET_def AUDIO_FRAMES_PER_PACKET_def)
  then have ne: "sample_count (feature_buffer ?a) \<noteq> 0" by (rule ge_2048_nonzero)
  from ProcessBuffer_Some [OF ne, of now ?a] obtain pkt where
    pb: "FeatureExtraction_ProcessBuffer now (feature_buffer ?a) ?a =
           (Some pkt, ?a\<lparr> fx_seq_number :=
                          (if fx_seq_number ?a + 1 > 65535 then 0 else fx_seq_number ?a + 1) \<rparr>)"
    by blast
  have nl: "\<not> length (output_queue ?a) < FEATURE_EXTRACT_QUEUE_DEPTH" using full k by simp
  have b: "built_packet now ?a = Some pkt" using finished by (simp add: built_packet_def pb)
  have s: "tx_queue_send FEATURE_EXTRACT_QUEUE_DEPTH (output_queue ?a) pkt =
             (TX_QUEUE_FULL, output_queue ?a)"
    using nl by (simp add: tx_queue_send_def)
  have e: "emit_packet now ?a =
       ?a\<lparr> fx_seq_number := (if fx_seq_number ?a + 1 > 65535 then 0 else fx_seq_number ?a + 1),
            output_queue := output_queue ?a, fx_error_count := fx_error_count ?a + 1,
            feature_buffer := FeatureBuffer_zero, last_error_flags := 0 \<rparr>"
    using finished by (simp add: emit_packet_def pb s Let_def)
  have t: "FeatureExtraction_ThreadEntry (RX_SUCCESS frame) now ctx = emit_packet now ?a"
    using running by (simp add: FeatureExtraction_ThreadEntry_def)
  show ?thesis
    unfolding t e using b s k by simp
qed

theorem enqueue_on_full_queue_witness:
  "fx_error_count (FeatureExtraction_ThreadEntry (RX_SUCCESS (const_frame 0 0)) 0 full_queue_ctx) = 1 \<and>
   packet_count (FeatureExtraction_ThreadEntry (RX_SUCCESS (const_frame 0 0)) 0 full_queue_ctx) = 0 \<and>
   output_queue (FeatureExtraction_ThreadEntry (RX_SUCCESS (const_frame 0 0)) 0 full_queue_ctx) =
     [zero_packet, zero_packet] \<and>
   feature_buffer (FeatureExtraction_ThreadEntry (RX_SUCCESS (const_frame 0 0)) 0 full_queue_ctx) =
     FeatureBuffer_zero"
proof -
  have running: "is_running full_queue_ctx"
    by (simp add: full_queue_ctx_def FeatureExtraction_Start_def)
  have sc: "sample_count (feature_buffer full_queue_ctx) \<in> {0, 512, 1024, 1536}"
    by (simp add: full_queue_ctx_def)
  have finished: "sample_count (feature_buffer (accumulate_frame (const_frame 0 0) full_queue_ctx))
                    \<ge> of_nat AUDIO_SAMPLES_PER_PACKET"
    unfolding accumulate_frame_eq [OF sc]
    by (simp add: full_queue_ctx_def AUDIO_FRAME_SIZE_def AUDIO_SAMPLES_PER_PACKET_def
        AUDIO_FRAMES_PER_PACKET_def)
  have full: "length (output_queue full_queue_ctx) \<ge> FEATURE_EXTRACT_QUEUE_DEPTH"
    by (simp add: full_queue_ctx_def FEATURE_EXTRACT_QUEUE_DEPTH_def)
  have c: "fx_error_count full_queue_ctx = 0" "packet_count full_queue_ctx = 0"
    "output_queue full_queue_ctx = [zero_packet, zero_packet]"
    by (simp_all add: full_queue_ctx_def FeatureExtraction_Start_def FeatureExtraction_Init_def)
  from enqueue_on_full_queue [OF running finished full, of 0] show ?thesis
    by (simp add: c)
qed


text \<open>
  C7.  In the sender of NetXDuo/App/app\_telemetry.c, when the allocation of the outgoing
  packet or the datagram send fails, the error counter grows (by 2 for a failed allocation,
  which \<open>Telemetry_TransmitPacket\<close> and the thread both count, by 1 for a failed send),
  the transmitted counter keeps its value, nothing is sent, and the cached last packet is
  the packet that was attempted.
\<close>

theorem transmit_failure_counted:
  assumes running: "app_is_running ctx" and ready: "app_is_ready ctx"
    and ip: "app_ip_instance ctx"
    and failed: "allocated \<noteq> NX_SUCCESS \<or> sent \<noteq> NX_SUCCESS"
  shows "fst (App_Telemetry_TransmitPacket allocated sent pkt ctx) \<noteq> NX_SUCCESS \<and>
         app_error_count (App_Telemetry_ThreadEntry (RX_SUCCESS pkt) allocated sent ctx) =
           app_error_count ctx + (if allocated \<noteq> NX_SUCCESS then 2 else 1) \<and>
         app_tx_count (App_Telemetry_ThreadEntry (RX_SUCCESS pkt) allocated sent ctx) =
           app_tx_count ctx \<and>
         telemetry_last_pkt (App_Telemetry_ThreadEntry (RX_SUCCESS pkt) allocated sent ctx) = pkt \<and>
         App_Telemetry_GetLastPacket (App_Telemetry_ThreadEntry (RX_SUCCESS pkt) allocated sent ctx) =
           Some pkt \<and>
         app_sent (App_Telemetry_ThreadEntry (RX_SUCCESS pkt) allocated sent ctx) = app_sent ctx"
  using assms
  by (auto simp: App_Telemetry_ThreadEntry_def App_Telemetry_TransmitPacket_def
      App_Telemetry_GetLastPacket_def Let_def)

theorem transmit_failure_counted_witness:
  "app_error_count (App_Telemetry_ThreadEntry (RX_SUCCESS zero_packet) (NX_FAILED 1) NX_SUCCESS
       App_Telemetry_started) = 2 \<and>
   app_error_count (App_Telemetry_ThreadEntry (RX_SUCCESS zero_packet) NX_SUCCESS (NX_FAILED 1)
       App_Telemetry_started) = 1 \<and>
   app_tx_count (App_Telemetry_ThreadEntry (RX_SUCCESS zero_packet) (NX_FAILED 1) NX_SUCCESS
       App_Telemetry_started) = 0 \<and>
   App_Telemetry_GetLastPacket (App_Telemetry_ThreadEntry (RX_SUCCESS zero_packet) (NX_FAILED 1)
       NX_SUCCESS App_Telemetry_started) = Some zero_packet"
  using transmit_failure_counted [of App_Telemetry_started "NX_FAILED 1" NX_SUCCESS zero_packet]
    transmit_failure_counted [of App_Telemetry_started NX_SUCCESS "NX_FAILED 1" zero_packet]
  by (simp add: App_Telemetry_started_def)


text \<open>
  C8 (as amended).  In both ring buffers the number of retained packets never exceeds
  \<open>TELEMETRY_MAX_PACKETS\<close> = 10.  \<open>Telemetry_BufferPut\<close> of the STM32CubeIDE
  app\_telemetry.c always succeeds: below capacity it appends the packet, at capacity it
  writes the new packet over the oldest retained one, moves the read cursor one slot on
  and leaves the count at capacity, so exactly the oldest packet is dropped.
  \<open>Telemetry_BufferPut\<close> of Core/Src/app\_telemetry.c appends below capacity and, at
  capacity, returns false and leaves the buffer as it is.
\<close>

theorem retained_cache_put:
  assumes ok: "buffer_ok b"
  shows "length (retained b) \<le> TELEMETRY_MAX_PACKETS \<and>
         fst (User_Telemetry_BufferPut p b) = 1 \<and>
         buffer_ok (snd (User_Telemetry_BufferPut p b)) \<and>
         retained (snd (User_Telemetry_BufferPut p b)) =
           (if length (retained b) < TELEMETRY_MAX_PACKETS then retained b @ [p]
            else tl (retained b) @ [p]) \<and>
         read_index (snd (User_Telemetry_BufferPut p b)) =
           (if length (retained b) < TELEMETRY_MAX_PACKETS then read_index b
            else (read_index b + 1) mod of_nat TELEMETRY_MAX_PACKETS) \<and>
         length (retained (snd (User_Telemetry_BufferPut p b))) =
           (if length (retained b) < TELEMETRY_MAX_PACKETS then length (retained b) + 1
            else TELEMETRY_MAX_PACKETS) \<and>
         (length (retained b) = TELEMETRY_MAX_PACKETS \<longrightarrow>
            packets (snd (User_Telemetry_BufferPut p b)) = (packets b)[unat (read_index b) := p] \<and>
            hd (retained b) = packets b ! unat (read_index b)) \<and>
         fst (Core_Telemetry_BufferPut p b) = (length (retained b) < TELEMETRY_MAX_PACKETS) \<and>
         buffer_ok (snd (Core_Telemetry_BufferPut p b)) \<and>
         retained (snd (Core_Telemetry_BufferPut p b)) =
           (if length (retained b) < TELEMETRY_MAX_PACKETS then retained b @ [p] else retained b)"
proof (cases "unat (buf_packet_count b) < 10")
  case True
  note u = User_put_not_full [OF ok True, of p]
  show ?thesis
    using True u buffer_okD(3) [OF ok]
    by (simp add: length_retained TELEMETRY_MAX_PACKETS_def Core_put_eq User_put_eq User_put_fst)
next
  case False
  note u = User_put_full [OF ok False, of p]
  note d = buffer_okD [OF ok]
  have c10: "unat (buf_packet_count b) = 10" using False d(3) by simp
  have w: "unat (write_index b) = unat (read_index b)" using d(2,4) by (simp add: c10)
  have ne: "retained b \<noteq> []" using length_retained [of b] c10 by auto
  have "hd (retained b) = retained b ! 0" using ne by (simp add: hd_conv_nth)
  also have "\<dots> = packets b ! unat (read_index b)" using d(2) by (simp add: retained_nth c10)
  finally have h: "hd (retained b) = packets b ! unat (read_index b)" .
  show ?thesis
    using False u ok d(3) h
    by (simp add: length_retained TELEMETRY_MAX_PACKETS_def Core_put_full User_put_full_eq
        User_put_fst w c10)
qed

theorem retained_cache_put_witness:
  "buffer_ok full_ring \<and>
   retained full_ring = [3, 4, 5, 6, 7, 8, 9, 0, 1, 2] \<and>
   retained (snd (User_Telemetry_BufferPut 10 full_ring)) = [4, 5, 6, 7, 8, 9, 0, 1, 2, 10] \<and>
   fst (Core_Telemetry_BufferPut 10 full_ring) = False \<and>
   retained (snd (Core_Telemetry_BufferPut 10 full_ring)) = [3, 4, 5, 6, 7, 8, 9, 0, 1, 2]"
proof -
  have ok: "buffer_ok full_ring"
    by (simp add: buffer_ok_def full_ring_def TELEMETRY_MAX_PACKETS_def)
  have r: "retained full_ring = [3, 4, 5, 6, 7, 8, 9, 0, 1, 2]"
    by (simp add: retained_def full_ring_def TELEMETRY_MAX_PACKETS_def upt_rec)
  from retained_cache_put [OF ok, of 10] show ?thesis
    using ok by (simp add: r TELEMETRY_MAX_PACKETS_def)
qed


text \<open>
  C8 (as stated) fails for \<open>Telemetry_BufferPut\<close> of Core/Src/app\_telemetry.c: a write
  into a full ring is refused and the oldest packet stays.
\<close>

theorem core_put_rejected_when_full:
  "fst (Core_Telemetry_BufferPut 10 full_ring) = False \<and>
   snd (Core_Telemetry_BufferPut 10 full_ring) = full_ring \<and>
   unat (buf_packet_count full_ring) = TELEMETRY_MAX_PACKETS"
  by (simp add: Core_Telemetry_BufferPut_def full_ring_def TELEMETRY_MAX_PACKETS_def)

text \<open>
  C9.  The claim says that the get-last-packet query returns the most recently written
  entry of the retained cache and removes nothing.  \<open>Telemetry_GetLastPacket\<close> of
  Core/Src/app\_telemetry.c, whose comment calls it the query for the last telemetry packet, calls
  \<open>Telemetry_BufferGet\<close>: after two packets with the timestamps 1 and 2 were added it
  returns the packet with timestamp 1, the oldest, and removes it, so that only the packet
  with timestamp 2 stays retained.  On the same two packets the function of the same name
  in the STM32CubeIDE app\_telemetry.c, which reads the slot before \<open>write_index\<close>,
  returns the packet with timestamp 2 and leaves the module state as it is.
\<close>

theorem core_get_last_packet_dequeues_oldest:
  "map core_timestamp_ms (retained (core_telemetry_buffer core_two_packets)) = [1, 2] \<and>
   map_option core_timestamp_ms (fst (Core_Telemetry_GetLastPacket core_two_packets)) = Some 1 \<and>
   map core_timestamp_ms
     (retained (core_telemetry_buffer (snd (Core_Telemetry_GetLastPacket core_two_packets)))) = [2] \<and>
   map timestamp_ms (retained (telemetry_buffer user_two_packets)) = [1, 2] \<and>
   map_option timestamp_ms (fst (User_Telemetry_GetLastPacket user_two_packets)) = Some 2 \<and>
   snd (User_Telemetry_GetLastPacket user_two_packets) = user_two_packets"
proof -
  have c: "map core_timestamp_ms (retained (core_telemetry_buffer core_two_packets)) = [1, 2] \<and>
     map_option core_timestamp_ms (fst (Core_Telemetry_GetLastPacket core_two_packets)) = Some 1 \<and>
     map core_timestamp_ms
       (retained (core_telemetry_buffer (snd (Core_Telemetry_GetLastPacket core_two_packets)))) = [2]"
    by (simp add: core_two_packets_def Core_Telemetry_Init_def Core_Telemetry_AddPacket_def
        Core_Telemetry_BufferPut_def Core_Telemetry_GetLastPacket_def Core_Telemetry_BufferGet_def
        Telemetry_BufferInit_def TELEMETRY_MAX_PACKETS_def retained_def Let_def core_zero_packet_def
        upt_rec)
  have u: "map timestamp_ms (retained (telemetry_buffer user_two_packets)) = [1, 2] \<and>
     map_option timestamp_ms (fst (User_Telemetry_GetLastPacket user_two_packets)) = Some 2 \<and>
     snd (User_Telemetry_GetLastPacket user_two_packets) = user_two_packets"
    by (simp add: user_two_packets_def User_Telemetry_run_def User_Telemetry_Init_def
        User_Telemetry_ThreadEntry_def User_Telemetry_SendUDP_def User_Telemetry_BufferPut_def
        User_Telemetry_GetLastPacket_def Telemetry_BufferInit_def TELEMETRY_MAX_PACKETS_def
        retained_def Let_def zero_packet_def upt_rec)
  from c u show ?thesis by (intro conjI) simp_all
qed


text \<open>
  C4.  The claim says that the packet's \<open>timestamp_ms\<close> is the capture time of the first
  frame of the batch.  The code tests \<open>sample_count == 0\<close> after it has added
  \<open>AUDIO_FRAME_SIZE\<close> to \<open>sample_count\<close>, so \<open>start_timestamp_ms\<close> is never set and
  keeps the 0 of the last \<open>memset\<close>: four frames captured at 1000, 1032, 1064 and 1096 ms
  give a packet with timestamp 0.
\<close>

theorem first_frame_timestamp_lost:
  "map timestamp_ms
     (output_queue (FeatureExtraction_run
        [(RX_SUCCESS (const_frame 0 1000), 1001), (RX_SUCCESS (const_frame 0 1032), 1033),
         (RX_SUCCESS (const_frame 0 1064), 1065), (RX_SUCCESS (const_frame 0 1096), 1097)]
        (FeatureExtraction_Start 0 FeatureExtraction_Init))) = [0] \<and>
   frame_timestamp_ms (const_frame 0 1000) = 1000"
proof -
  from four_frames [where ?f1.0 = "const_frame 0 1000" and ?f2.0 = "const_frame 0 1032" and ?f3.0 = "const_frame 0 1064" and ?f4.0 = "const_frame 0 1096" and ?t1.0 = 1001 and ?t2.0 = 1033 and ?t3.0 = 1065 and ?t4.0 = 1097 and ?t0.0 = 0,
      OF length_const_frame length_const_frame length_const_frame length_const_frame]
  show ?thesis by (auto simp: const_frame_def)
qed


text \<open>
  C5.  The claim says that \<open>zcr_count\<close> is the number of sign changes in the batch, as the
  field's comment in audio\_features.h does.  The code stores \<open>sample_count / 2\<close>: a batch
  of silence, which has no sign change, gives \<open>zcr_count\<close> 1024.
\<close>

theorem zcr_count_constant:
  "map zcr_count
     (output_queue (FeatureExtraction_run
        [(RX_SUCCESS (const_frame 0 0), 0), (RX_SUCCESS (const_frame 0 0), 0),
         (RX_SUCCESS (const_frame 0 0), 0), (RX_SUCCESS (const_frame 0 0), 0)]
        (FeatureExtraction_Start 0 FeatureExtraction_Init))) = [1024] \<and>
   zero_crossings
     (samples (const_frame 0 0) @ samples (const_frame 0 0) @ samples (const_frame 0 0) @
      samples (const_frame 0 0)) 2048 = 0"
proof -
  have z: "zero_crossings
     (samples (const_frame 0 0) @ samples (const_frame 0 0) @ samples (const_frame 0 0) @
      samples (const_frame 0 0)) 2048 = 0"
    by (rule zero_crossings_silence)
      (simp add: const_frame_def AUDIO_FRAME_SIZE_def nth_append)
  from four_frames [where ?f1.0 = "const_frame 0 0" and ?f2.0 = "const_frame 0 0" and ?f3.0 = "const_frame 0 0" and ?f4.0 = "const_frame 0 0" and ?t1.0 = 0 and ?t2.0 = 0 and ?t3.0 = 0 and ?t4.0 = 0 and ?t0.0 = 0,
      OF length_const_frame length_const_frame length_const_frame length_const_frame]
  show ?thesis using z by auto
qed


text \<open>
  C10 (as amended).  In every state the extractor reaches from \<open>FeatureExtraction_Init\<close>
  and \<open>FeatureExtraction_Start\<close>, \<open>sample_count\<close> is a multiple of
  \<open>AUDIO_FRAME_SIZE\<close> and at most \<open>AUDIO_SAMPLES_PER_PACKET\<close>, the accumulator has
  \<open>AUDIO_SAMPLES_PER_PACKET\<close> elements and the next frame fits behind the samples
  already there.  Whenever a packet is built, \<open>sample_count\<close> is 2048 and the RMS, the
  zero-crossing rate and the peak are computed over those 2048 samples, while the FFT bands
  are computed from the first \<open>FFT_SIZE\<close> = 512 samples of the accumulator.
\<close>

theorem accumulator_invariant:
  assumes reach: "ctx = FeatureExtraction_run inputs (FeatureExtraction_Start t0 FeatureExtraction_Init)"
  shows "unat (sample_count (feature_buffer ctx)) mod AUDIO_FRAME_SIZE = 0 \<and>
         unat (sample_count (feature_buffer ctx)) \<le> AUDIO_SAMPLES_PER_PACKET \<and>
         length (accumulated_samples (feature_buffer ctx)) = AUDIO_SAMPLES_PER_PACKET \<and>
         unat (sample_count (feature_buffer ctx)) + AUDIO_FRAME_SIZE
           \<le> length (accumulated_samples (feature_buffer ctx)) \<and>
         length (accumulated_samples (feature_buffer (accumulate_frame frame ctx))) =
           AUDIO_SAMPLES_PER_PACKET \<and>
         (\<forall>pkt. built_packet now (accumulate_frame frame ctx) = Some pkt \<longrightarrow>
            sample_count (feature_buffer (accumulate_frame frame ctx)) = 2048 \<and>
            rms_raw pkt =
              AudioFeatures_CalculateRMS
                (accumulated_samples (feature_buffer (accumulate_frame frame ctx))) 2048 \<and>
            zcr_rate pkt =
              AudioFeatures_CalculateZCR
                (accumulated_samples (feature_buffer (accumulate_frame frame ctx))) 2048 \<and>
            peak_amplitude pkt =
              AudioFeatures_FindPeakAmplitude
                (accumulated_samples (feature_buffer (accumulate_frame frame ctx))) 2048 \<and>
            fft_band pkt =
              AudioFeatures_ComputeFFTBands
                (take FFT_SIZE (accumulated_samples (feature_buffer (accumulate_frame frame ctx)))))"
proof -
  let ?a = "accumulate_frame frame ctx"
  have inv: "fx_inv ctx" unfolding reach by (rule fx_inv_run [OF fx_inv_Start])
  note a = accumulate_frame_fields [OF inv, of frame]
  have sc: "sample_count (feature_buffer ctx) \<in> {0, 512, 1024, 1536}"
    and len: "length (accumulated_samples (feature_buffer ctx)) = AUDIO_SAMPLES_PER_PACKET"
    using inv by (simp_all add: fx_inv_def)
  have n: "unat (sample_count (feature_buffer ctx)) mod AUDIO_FRAME_SIZE = 0"
    "unat (sample_count (feature_buffer ctx)) \<le> AUDIO_SAMPLES_PER_PACKET"
    "unat (sample_count (feature_buffer ctx)) + AUDIO_FRAME_SIZE
       \<le> length (accumulated_samples (feature_buffer ctx))"
    using sc
    by (auto simp: len AUDIO_FRAME_SIZE_def AUDIO_SAMPLES_PER_PACKET_def AUDIO_FRAMES_PER_PACKET_def)
  have p: "sample_count (feature_buffer ?a) = 2048 \<and>
           rms_raw pkt = AudioFeatures_CalculateRMS (accumulated_samples (feature_buffer ?a)) 2048 \<and>
           zcr_rate pkt = AudioFeatures_CalculateZCR (accumulated_samples (feature_buffer ?a)) 2048 \<and>
           peak_amplitude pkt =
             AudioFeatures_FindPeakAmplitude (accumulated_samples (feature_buffer ?a)) 2048 \<and>
           fft_band pkt =
             AudioFeatures_ComputeFFTBands (take FFT_SIZE (accumulated_samples (feature_buffer ?a)))"
    if b: "built_packet now ?a = Some pkt" for pkt
  proof -
    have "sample_count (feature_buffer ?a) \<ge> of_nat AUDIO_SAMPLES_PER_PACKET"
      using b by (simp add: built_packet_def split: if_splits)
    then have s: "sample_count (feature_buffer ?a) = 2048"
      using sc
      by (auto simp: a(1) AUDIO_FRAME_SIZE_def AUDIO_SAMPLES_PER_PACKET_def AUDIO_FRAMES_PER_PACKET_def)
    from emit_packet_full [OF s, of now] b
    show ?thesis
      using ComputeFFTBands_take [of "accumulated_samples (feature_buffer ?a)"] by (auto simp: s)
  qed
  show ?thesis using n len a(2) p by blast
qed

theorem accumulator_invariant_witness:
  "unat (sample_count (feature_buffer three_frames_ctx)) = 1536 \<and>
   (\<exists>pkt. built_packet 0 (accumulate_frame (const_frame 0 0) three_frames_ctx) = Some pkt \<and>
      sample_count (feature_buffer (accumulate_frame (const_frame 0 0) three_frames_ctx)) = 2048 \<and>
      rms_raw pkt =
        AudioFeatures_CalculateRMS
          (accumulated_samples (feature_buffer (accumulate_frame (const_frame 0 0) three_frames_ctx))) 2048 \<and>
      fft_band pkt =
        AudioFeatures_ComputeFFTBands
          (take FFT_SIZE
             (accumulated_samples (feature_buffer (accumulate_frame (const_frame 0 0) three_frames_ctx)))))"
proof -
  let ?a = "accumulate_frame (const_frame 0 0) three_frames_ctx"
  from three_frames [where ?f1.0 = "const_frame 0 0" and ?f2.0 = "const_frame 0 0" and
      ?f3.0 = "const_frame 0 0" and ?t1.0 = 0 and ?t2.0 = 0 and ?t3.0 = 0 and ?t0.0 = 0,
      OF length_const_frame length_const_frame length_const_frame]
  have b: "sample_count (feature_buffer three_frames_ctx) = 1536"
    by (simp add: three_frames_ctx_def)
  then have sc: "sample_count (feature_buffer three_frames_ctx) \<in> {0, 512, 1024, 1536}" by simp
  have s: "sample_count (feature_buffer ?a) = 2048"
    unfolding accumulate_frame_eq [OF sc] by (simp add: b)
  from emit_packet_full [OF s, of 0] obtain pkt where pkt: "built_packet 0 ?a = Some pkt" by blast
  have reach: "three_frames_ctx =
      FeatureExtraction_run
       [(RX_SUCCESS (const_frame 0 0), 0), (RX_SUCCESS (const_frame 0 0), 0),
        (RX_SUCCESS (const_frame 0 0), 0)]
       (FeatureExtraction_Start 0 FeatureExtraction_Init)"
    by (simp add: three_frames_ctx_def)
  from accumulator_invariant [OF reach, of "const_frame 0 0" 0] pkt
  show ?thesis by (auto simp: b)
qed

text \<open>
  C10 (as stated) fails for the FFT bands: a batch whose last three frames are at full
  scale has the band magnitudes of a batch of silence, since
  \<open>AudioFeatures_ComputeFFTBands\<close> reads the first frame only.
\<close>

theorem fft_bands_from_first_frame_only:
  "map fft_band
     (output_queue (FeatureExtraction_run
        [(RX_SUCCESS (const_frame 0 0), 0), (RX_SUCCESS (const_frame 32767 0), 0),
         (RX_SUCCESS (const_frame 32767 0), 0), (RX_SUCCESS (const_frame 32767 0), 0)]
        (FeatureExtraction_Start 0 FeatureExtraction_Init))) = [replicate FFT_BANDS 0] \<and>
   map fft_band
     (output_queue (FeatureExtraction_run
        [(RX_SUCCESS (const_frame 0 0), 0), (RX_SUCCESS (const_frame 0 0), 0),
         (RX_SUCCESS (const_frame 0 0), 0), (RX_SUCCESS (const_frame 0 0), 0)]
        (FeatureExtraction_Start 0 FeatureExtraction_Init))) = [replicate FFT_BANDS 0]"
proof -
  have f: "AudioFeatures_ComputeFFTBands
             (samples (const_frame 0 0) @ samples (const_frame v 0) @ samples (const_frame v 0) @
              samples (const_frame v 0)) = replicate FFT_BANDS 0" for v
    by (rule ComputeFFTBands_silence)
      (simp add: const_frame_def AUDIO_FRAME_SIZE_def FFT_SIZE_def nth_append)
  from four_frames [where ?f1.0 = "const_frame 0 0" and ?f2.0 = "const_frame 32767 0" and ?f3.0 = "const_frame 32767 0" and ?f4.0 = "const_frame 32767 0" and ?t1.0 = 0 and ?t2.0 = 0 and ?t3.0 = 0 and ?t4.0 = 0 and ?t0.0 = 0,
      OF length_const_frame length_const_frame length_const_frame length_const_frame]
    four_frames [where ?f1.0 = "const_frame 0 0" and ?f2.0 = "const_frame 0 0" and ?f3.0 = "const_frame 0 0" and ?f4.0 = "const_frame 0 0" and ?t1.0 = 0 and ?t2.0 = 0 and ?t3.0 = 0 and ?t4.0 = 0 and ?t0.0 = 0,
      OF length_const_frame length_const_frame length_const_frame length_const_frame]
  show ?thesis using f [of 32767] f [of 0] by auto
qed


end
